theory Spec2Isabelle
  imports Complex_Main "HOL-Library.Sublist"
begin

section \<open>Exceptions\<close>

text \<open>
  A shallow embedding of the fetch pipeline of \<open>organism_tractability\<close>: the catalog
  (\<open>db/feature_metadata/feature_metadata_service.py\<close>), the orchestrator and the batch
  driver (\<open>db/features/pipeline.py\<close>), the rate limiter and the retry policy
  (\<open>utils/rate_limiter.py\<close>) and the constructors of the source clients. Python strings
  are \<open>string\<close>, Python ints are \<open>int\<close>, a raise is the \<open>Inl\<close> of a result
  \<open>exn + 'a\<close>, and every effect is passed as explicit state.

  An exception is its class and its message. \<open>mro\<close> lists a class with its base
  classes, as Python, requests (\<open>RequestException\<close> derives from \<open>IOError\<close>, an alias
  of \<open>OSError\<close>), pydantic (\<open>ValidationError\<close> derives from \<open>ValueError\<close>), tenacity
  and \<open>utils/FirecrawlClient.py\<close> declare them, and \<open>isinstance\<close> against a tuple of
  classes holds when one of them is in it. A pydantic \<open>ValidationError\<close> carries one
  (location, error type) pair for each field that failed.
\<close>

datatype exc_class =
    BaseException | KeyboardInterrupt | Exception
  | TypeError | ValueError | ValidationError
  | LookupError | KeyError
  | RuntimeError | FirecrawlExtractionError
  | OSError | RequestException | HTTPError | ConnectionError | Timeout
  | RetryError

fun mro :: "exc_class \<Rightarrow> exc_class list" where
  "mro BaseException = [BaseException]"
| "mro KeyboardInterrupt = [KeyboardInterrupt, BaseException]"
| "mro Exception = [Exception, BaseException]"
| "mro TypeError = [TypeError, Exception, BaseException]"
| "mro ValueError = [ValueError, Exception, BaseException]"
| "mro ValidationError = [ValidationError, ValueError, Exception, BaseException]"
| "mro LookupError = [LookupError, Exception, BaseException]"
| "mro KeyError = [KeyError, LookupError, Exception, BaseException]"
| "mro RuntimeError = [RuntimeError, Exception, BaseException]"
| "mro FirecrawlExtractionError =
     [FirecrawlExtractionError, RuntimeError, Exception, BaseException]"
| "mro OSError = [OSError, Exception, BaseException]"
| "mro RequestException = [RequestException, OSError, Exception, BaseException]"
| "mro HTTPError = [HTTPError, RequestException, OSError, Exception, BaseException]"
| "mro ConnectionError =
     [ConnectionError, RequestException, OSError, Exception, BaseException]"
| "mro Timeout = [Timeout, RequestException, OSError, Exception, BaseException]"
| "mro RetryError = [RetryError, Exception, BaseException]"

datatype exn =
    Exn exc_class string
  | PydanticValidationError "(string \<times> string) list"

fun exn_class :: "exn \<Rightarrow> exc_class" where
  "exn_class (Exn c _) = c"
| "exn_class (PydanticValidationError _) = ValidationError"

definition isinstance :: "exn \<Rightarrow> exc_class list \<Rightarrow> bool" where
  "isinstance e classes = list_ex (\<lambda>c. c \<in> set (mro (exn_class e))) classes"

text \<open>
  \<open>sep.join(xs)\<close> of Python.
\<close>

fun join :: "string \<Rightarrow> string list \<Rightarrow> string" where
  "join sep [] = []"
| "join sep [x] = x"
| "join sep (x # y # ys) = x @ sep @ join sep (y # ys)"

section \<open>Feature metadata catalog\<close>

text \<open>
  The pydantic model \<open>FeatureMetadata\<close>. The field \<open>type\<close> of the source is
  \<open>feature_type\<close> here. The first five fields are required (\<open>Field(...)\<close>) and
  \<open>description\<close> has \<open>min_length=1\<close>; the others default to \<open>None\<close>.
\<close>

record FeatureMetadata =
  feature_id :: string
  source_id :: string
  display_name :: string
  category :: string
  description :: string
  organism_query_type :: "string option"
  answer_enum :: "string list option"
  query :: "string option"
  max_products :: "int option"
  feature_type :: "string option"

text \<open>
  An entry of the definition file is a dict from field names to values of the YAML
  loader, of a type \<open>'r\<close> left open. How pydantic reads one such value as a \<open>str\<close>, an
  \<open>int\<close> or a \<open>list[str]\<close>, and which value is \<open>None\<close>, is pydantic's business and a
  parameter of the model: \<open>as_str\<close>, \<open>as_int\<close>, \<open>as_str_list\<close> answer \<open>None\<close> where
  pydantic rejects the value. What the schema of the source fixes is modelled: which
  fields are required, the minimum length of \<open>description\<close>, the default of the
  optional fields, and that keys outside the schema are ignored. The errors pydantic
  reports for a value it rejects in an optional field are a parameter as well
  (\<open>rejected\<close>, from the field name and the value). \<open>model_validate\<close> collects the
  errors of all fields of one entry, as pydantic does.
\<close>

record 'r pydantic =
  as_str :: "'r \<Rightarrow> string option"
  as_int :: "'r \<Rightarrow> int option"
  as_str_list :: "'r \<Rightarrow> string list option"
  is_none :: "'r \<Rightarrow> bool"
  rejected :: "string \<Rightarrow> 'r \<Rightarrow> (string \<times> string) list"

type_synonym 'r feature_dict = "string \<rightharpoonup> 'r"

type_synonym 'a validated = "(string \<times> string) list + 'a"

definition required_str :: "'r pydantic \<Rightarrow> 'r feature_dict \<Rightarrow> string \<Rightarrow> nat \<Rightarrow> string validated" where
  "required_str P f name min_length =
     (case f name of
        None \<Rightarrow> Inl [(name, ''missing'')]
      | Some r \<Rightarrow>
          (case as_str P r of
             None \<Rightarrow> Inl [(name, ''string_type'')]
           | Some s \<Rightarrow>
               if length s < min_length then Inl [(name, ''string_too_short'')] else Inr s))"

definition optional_field ::
  "'r pydantic \<Rightarrow> ('r \<Rightarrow> 'a option) \<Rightarrow> 'r feature_dict \<Rightarrow> string \<Rightarrow> 'a option validated" where
  "optional_field P conv f name =
     (case f name of
        None \<Rightarrow> Inr None
      | Some r \<Rightarrow>
          if is_none P r then Inr None
          else (case conv r of None \<Rightarrow> Inl (rejected P name r) | Some v \<Rightarrow> Inr (Some v)))"

definition errors_of :: "'a validated \<Rightarrow> (string \<times> string) list" where
  "errors_of v = (case v of Inl es \<Rightarrow> es | Inr _ \<Rightarrow> [])"

definition model_validate :: "'r pydantic \<Rightarrow> 'r feature_dict \<Rightarrow> exn + FeatureMetadata" where
  "model_validate P f =
     (let v1 = required_str P f ''feature_id'' 0;
          v2 = required_str P f ''source_id'' 0;
          v3 = required_str P f ''display_name'' 0;
          v4 = required_str P f ''category'' 0;
          v5 = required_str P f ''description'' 1;
          v6 = optional_field P (as_str P) f ''organism_query_type'';
          v7 = optional_field P (as_str_list P) f ''answer_enum'';
          v8 = optional_field P (as_str P) f ''query'';
          v9 = optional_field P (as_int P) f ''max_products'';
          v10 = optional_field P (as_str P) f ''type''
      in case (v1, v2, v3, v4, v5, v6, v7, v8, v9, v10) of
           (Inr a1, Inr a2, Inr a3, Inr a4, Inr a5, Inr a6, Inr a7, Inr a8, Inr a9, Inr a10) \<Rightarrow>
             Inr \<lparr>feature_id = a1, source_id = a2, display_name = a3, category = a4,
                  description = a5, organism_query_type = a6, answer_enum = a7, query = a8,
                  max_products = a9, feature_type = a10\<rparr>
         | _ \<Rightarrow>
             Inl (PydanticValidationError
                    (errors_of v1 @ errors_of v2 @ errors_of v3 @ errors_of v4 @ errors_of v5 @
                     errors_of v6 @ errors_of v7 @ errors_of v8 @ errors_of v9 @ errors_of v10)))"

text \<open>
  \<open>get_all_feature_metadata\<close>: the list comprehension
  \<open>[FeatureMetadata.model_validate(f) for f in feature_dicts]\<close> validates the entries in
  order, and the first \<open>ValidationError\<close> leaves it. The loaded YAML document is a
  parameter \<open>data\<close>, a dict whose key \<open>features\<close>, when present, holds a list of entries;
  \<open>get_features\<close> is \<open>data.get("features", [])\<close>. The service reads the file on every
  call, so every function below that consults the catalog takes \<open>data\<close>.
\<close>

fun validate_each :: "'r pydantic \<Rightarrow> 'r feature_dict list \<Rightarrow> exn + FeatureMetadata list" where
  "validate_each P [] = Inr []"
| "validate_each P (f # fs) =
     (case model_validate P f of
        Inl e \<Rightarrow> Inl e
      | Inr m \<Rightarrow> (case validate_each P fs of Inl e \<Rightarrow> Inl e | Inr ms \<Rightarrow> Inr (m # ms)))"

type_synonym 'r yaml_data = "string \<rightharpoonup> 'r feature_dict list"

definition get_features :: "'r yaml_data \<Rightarrow> 'r feature_dict list" where
  "get_features data = (case data ''features'' of None \<Rightarrow> [] | Some fs \<Rightarrow> fs)"

definition get_all_feature_metadata :: "'r pydantic \<Rightarrow> 'r yaml_data \<Rightarrow> exn + FeatureMetadata list" where
  "get_all_feature_metadata P data =
     (let feature_dicts = get_features data in validate_each P feature_dicts)"

definition get_feature_metadata_by_source ::
  "'r pydantic \<Rightarrow> 'r yaml_data \<Rightarrow> string \<Rightarrow> exn + FeatureMetadata list" where
  "get_feature_metadata_by_source P data sid =
     (case get_all_feature_metadata P data of
        Inl e \<Rightarrow> Inl e
      | Inr features \<Rightarrow> Inr (filter (\<lambda>f. source_id f = sid) features))"


section \<open>Adapter results\<close>

text \<open>
  What an adapter returns: \<open>None\<close>, JSON-like data, or a pydantic model object
  (\<open>VModel\<close>, with its fields). Only a model object has the attribute \<open>model_dump\<close>, and
  \<open>model_dump\<close> turns it into a dict, converting the model objects nested in it as
  well. Floating-point leaves are not represented. \<open>plain\<close> holds of a value without
  model objects. \<open>fetched_obj\<close> is the \<open>if result is None / elif hasattr(result,
  "model_dump") / else\<close> chain of \<open>fetch_features_for_organism\<close>.
\<close>

datatype pyval =
    VNone
  | VBool bool
  | VInt int
  | VStr string
  | VList "pyval list"
  | VDict "(string \<times> pyval) list"
  | VModel "(string \<times> pyval) list"

primrec model_dump :: "pyval \<Rightarrow> pyval" where
  "model_dump VNone = VNone"
| "model_dump (VBool b) = VBool b"
| "model_dump (VInt i) = VInt i"
| "model_dump (VStr s) = VStr s"
| "model_dump (VList xs) = VList (map model_dump xs)"
| "model_dump (VDict kvs) = VDict (map (map_prod id model_dump) kvs)"
| "model_dump (VModel kvs) = VDict (map (map_prod id model_dump) kvs)"

primrec plain :: "pyval \<Rightarrow> bool" where
  "plain VNone = True"
| "plain (VBool b) = True"
| "plain (VInt i) = True"
| "plain (VStr s) = True"
| "plain (VList xs) = list_all plain xs"
| "plain (VDict kvs) = list_all (pred_prod (\<lambda>k. True) plain) kvs"
| "plain (VModel kvs) = False"

fun hasattr_model_dump :: "pyval \<Rightarrow> bool" where
  "hasattr_model_dump (VModel _) = True"
| "hasattr_model_dump _ = False"

definition fetched_obj :: "pyval \<Rightarrow> pyval" where
  "fetched_obj result =
     (if result = VNone then VDict []
      else if hasattr_model_dump result then model_dump result
      else result)"

section \<open>Fetch orchestrator\<close>

text \<open>
  A source function (the \<open>SourceFunction\<close> protocol) talks to a remote service: it is
  a function of its three arguments and of the state \<open>'w\<close> of the outside world, and
  it returns a result or raises. \<open>SOURCE_REGISTRY\<close> is the dict of the source, as an
  association list in its declaration order, with the five adapters as a parameter. A
  Python dict keeps its keys in insertion order, and storing under an existing key
  keeps the key's place: \<open>dict_set\<close>.

  The state \<open>'w io\<close> holds the outside world, the lines printed on stdout (each
  \<open>Fetching: ...\<close> line as the tuple of the four values it prints) and the output CSV
  file (\<open>None\<close> until the run opens it). \<open>fetch_features\<close> prints its line immediately
  before each adapter call, so stdout records every adapter invocation.
\<close>

type_synonym 'w source_function =
  "int \<Rightarrow> string \<Rightarrow> FeatureMetadata \<Rightarrow> 'w \<Rightarrow> (exn + pyval) \<times> 'w"

record 'w config =
  func :: "'w source_function"

record 'w adapters =
  get_protocols_io :: "'w source_function"
  get_ncbi :: "'w source_function"
  get_nih_reporter :: "'w source_function"
  get_atcc :: "'w source_function"
  get_exa_answer :: "'w source_function"

definition SOURCE_REGISTRY :: "'w adapters \<Rightarrow> (string \<times> 'w config) list" where
  "SOURCE_REGISTRY A =
     [(''protocols_io'', \<lparr>func = get_protocols_io A\<rparr>),
      (''ncbi'', \<lparr>func = get_ncbi A\<rparr>),
      (''nih_reporter'', \<lparr>func = get_nih_reporter A\<rparr>),
      (''atcc'', \<lparr>func = get_atcc A\<rparr>),
      (''exa_answer'', \<lparr>func = get_exa_answer A\<rparr>)]"

record FeatureRow =
  row_organism_id :: int
  row_feature_id :: string
  row_source_id :: string
  fetched_object :: pyval

datatype csv_line =
    HeaderLine "string list"
  | DataLine int string string string

record 'w io =
  world :: 'w
  stdout :: "(string \<times> int \<times> string \<times> string) list"
  csv_out :: "csv_line list option"

fun dict_set :: "'k \<Rightarrow> 'v \<Rightarrow> ('k \<times> 'v) list \<Rightarrow> ('k \<times> 'v) list" where
  "dict_set k v [] = [(k, v)]"
| "dict_set k v ((k', v') # d) =
     (if k' = k then (k', v) # d else (k', v') # dict_set k v d)"

text \<open>
  \<open>_get_sources_to_process\<close>. \<open>select_sources\<close> is its dict comprehension
  \<open>{source_id: SOURCE_REGISTRY[source_id] for source_id in source_ids}\<close>, with the
  \<open>KeyError\<close> of the subscript (which the check before it excludes).
\<close>

fun select_sources ::
  "(string \<times> 'c) list \<Rightarrow> string list \<Rightarrow> (string \<times> 'c) list \<Rightarrow> exn + (string \<times> 'c) list" where
  "select_sources reg [] acc = Inr acc"
| "select_sources reg (sid # sids) acc =
     (case map_of reg sid of
        None \<Rightarrow> Inl (Exn KeyError sid)
      | Some c \<Rightarrow> select_sources reg sids (dict_set sid c acc))"

definition get_sources_to_process ::
  "(string \<times> 'c) list \<Rightarrow> string list option \<Rightarrow> exn + (string \<times> 'c) list" where
  "get_sources_to_process reg source_ids =
     (case source_ids of
        None \<Rightarrow> Inr reg
      | Some sids \<Rightarrow>
          (let invalid_sources = filter (\<lambda>sid. sid \<notin> set (map fst reg)) sids in
           if invalid_sources \<noteq> [] then
             (let available = join '', '' (map fst reg) in
              Inl (Exn ValueError
                    (''Invalid source IDs: '' @ join '', '' invalid_sources @
                     ''. Available sources: '' @ available)))
           else select_sources reg sids []))"

text \<open>
  \<open>fetch_features_for_organism\<close>: \<open>fetch_features\<close> is the inner loop over the
  catalog entries of one source, \<open>fetch_sources\<close> the outer loop over the selected
  sources. An exception of an adapter or of the catalog load leaves both loops.
\<close>

fun fetch_features ::
  "'w config \<Rightarrow> int \<Rightarrow> string \<Rightarrow> FeatureMetadata list \<Rightarrow> FeatureRow list \<Rightarrow> 'w io \<Rightarrow>
     (exn + FeatureRow list) \<times> 'w io" where
  "fetch_features cfg oid name [] rows s = (Inr rows, s)"
| "fetch_features cfg oid name (fm # fms) rows s =
     (let s1 = s\<lparr>stdout := stdout s @ [(name, oid, feature_id fm, source_id fm)]\<rparr> in
      case func cfg oid name fm (world s1) of
        (Inl e, w) \<Rightarrow> (Inl e, s1\<lparr>world := w\<rparr>)
      | (Inr result, w) \<Rightarrow>
          fetch_features cfg oid name fms
            (rows @ [\<lparr>row_organism_id = oid, row_feature_id = feature_id fm,
                      row_source_id = source_id fm, fetched_object = fetched_obj result\<rparr>])
            (s1\<lparr>world := w\<rparr>))"

fun fetch_sources ::
  "'r pydantic \<Rightarrow> 'r yaml_data \<Rightarrow> int \<Rightarrow> string \<Rightarrow> (string \<times> 'w config) list \<Rightarrow>
     FeatureRow list \<Rightarrow> 'w io \<Rightarrow> (exn + FeatureRow list) \<times> 'w io" where
  "fetch_sources P data oid name [] rows s = (Inr rows, s)"
| "fetch_sources P data oid name ((sid, cfg) # rest) rows s =
     (case get_feature_metadata_by_source P data sid of
        Inl e \<Rightarrow> (Inl e, s)
      | Inr features_metadata \<Rightarrow>
          (case fetch_features cfg oid name features_metadata rows s of
             (Inl e, s') \<Rightarrow> (Inl e, s')
           | (Inr rows', s') \<Rightarrow> fetch_sources P data oid name rest rows' s'))"

definition fetch_features_for_organism ::
  "'r pydantic \<Rightarrow> 'r yaml_data \<Rightarrow> (string \<times> 'w config) list \<Rightarrow> int \<Rightarrow> string \<Rightarrow>
     string list option \<Rightarrow> 'w io \<Rightarrow> (exn + FeatureRow list) \<times> 'w io" where
  "fetch_features_for_organism P data reg organism_id organism_scientific_name source_ids s =
     (case get_sources_to_process reg source_ids of
        Inl e \<Rightarrow> (Inl e, s)
      | Inr sources_to_process \<Rightarrow>
          fetch_sources P data organism_id organism_scientific_name sources_to_process [] s)"


section \<open>Batch driver\<close>

text \<open>
  \<open>run_csv\<close>. The input file is given as the rows \<open>csv.reader\<close> yields, one per line
  of the file (no quoted field spans lines), a blank line as the empty row, so that row
  \<open>i\<close> of the list is line \<open>i + 1\<close> of the file. \<open>csv.DictReader\<close> takes the first row
  as the field names and passes over empty rows; a row shorter than the header gets
  \<open>None\<close> for the missing keys (\<open>dict_row\<close>; the \<open>restkey\<close> entry of a longer row has
  the key \<open>None\<close> and is left out). \<open>strip\<close> removes the whitespace of \<open>str.strip()\<close>
  among the characters below 256. Python's \<open>int()\<close>, \<open>repr()\<close> of a row and
  \<open>json.dumps\<close>, which raises on a value it cannot serialise, are parameters
  (\<open>builtins\<close>); \<open>str_nat\<close> is \<open>str()\<close> of a row number. The rows of one organism are
  written one by one, so a failing \<open>json.dumps\<close> leaves the earlier rows in the file.
  \<open>parse_row\<close> is the body of the validation loop and \<open>read_organisms\<close> the loop, with
  \<open>i\<close> the counter of \<open>enumerate(reader, start=2)\<close>. The directory made by \<open>mkdir\<close>
  before the input is read is not part of the state.
\<close>

record organism =
  organism_scientific_name :: string
  organism_id :: int

type_synonym csv_dict = "string \<rightharpoonup> string option"

record builtins =
  int_of_str :: "string \<Rightarrow> int option"
  repr_dict :: "csv_dict \<Rightarrow> string"
  json_dumps :: "pyval \<Rightarrow> exn + string"

definition is_space :: "char \<Rightarrow> bool" where
  "is_space c = ((of_char c :: nat) \<in> {9, 10, 11, 12, 13, 28, 29, 30, 31, 32, 133, 160})"

definition strip :: "string \<Rightarrow> string" where
  "strip s = rev (dropWhile is_space (rev (dropWhile is_space s)))"

definition digit_char :: "nat \<Rightarrow> char" where
  "digit_char d = char_of (48 + d)"

fun str_nat :: "nat \<Rightarrow> string" where
  "str_nat n = (if n < 10 then [digit_char n] else str_nat (n div 10) @ [digit_char (n mod 10)])"

definition fieldnames :: "string list list \<Rightarrow> string list option" where
  "fieldnames lines = (case lines of [] \<Rightarrow> None | header # _ \<Rightarrow> Some header)"

definition dict_row :: "string list \<Rightarrow> string list \<Rightarrow> csv_dict" where
  "dict_row names row =
     fold (\<lambda>key d. d(key \<mapsto> None)) (drop (length row) names)
       (fold (\<lambda>(key, v) d. d(key \<mapsto> Some v)) (zip names row) Map.empty)"

definition DictReader :: "string list list \<Rightarrow> csv_dict list" where
  "DictReader lines =
     (case lines of
        [] \<Rightarrow> []
      | header # rest \<Rightarrow> map (dict_row header) (filter (\<lambda>row. row \<noteq> []) rest))"

definition get_or_empty :: "csv_dict \<Rightarrow> string \<Rightarrow> string" where
  "get_or_empty row key = (case row key of Some (Some v) \<Rightarrow> v | _ \<Rightarrow> [])"

definition parse_row :: "builtins \<Rightarrow> nat \<Rightarrow> csv_dict \<Rightarrow> exn + organism" where
  "parse_row B i row =
     (let name = strip (get_or_empty row ''organism_scientific_name'');
          oid_raw = strip (get_or_empty row ''organism_id'')
      in if name = [] \<or> oid_raw = [] then
           Inl (Exn ValueError
                 (''Input CSV row '' @ str_nat i @
                  '' missing organism_scientific_name or organism_id: '' @ repr_dict B row))
         else
           (case int_of_str B oid_raw of
              None \<Rightarrow>
                Inl (Exn ValueError
                      (''Input CSV row '' @ str_nat i @
                       '' organism_id must be an integer taxonomy id, got: '' @ oid_raw))
            | Some oid \<Rightarrow> Inr \<lparr>organism_scientific_name = name, organism_id = oid\<rparr>))"

fun read_organisms ::
  "builtins \<Rightarrow> nat \<Rightarrow> csv_dict list \<Rightarrow> organism list \<Rightarrow> exn + organism list" where
  "read_organisms B i [] organisms = Inr organisms"
| "read_organisms B i (row # rest) organisms =
     (case parse_row B i row of
        Inl e \<Rightarrow> Inl e
      | Inr org \<Rightarrow> read_organisms B (Suc i) rest (organisms @ [org]))"

definition writerow :: "builtins \<Rightarrow> FeatureRow \<Rightarrow> exn + csv_line" where
  "writerow B r =
     (case json_dumps B (fetched_object r) of
        Inl e \<Rightarrow> Inl e
      | Inr json \<Rightarrow> Inr (DataLine (row_organism_id r) (row_feature_id r) (row_source_id r) json))"

fun write_rows :: "builtins \<Rightarrow> FeatureRow list \<Rightarrow> 'w io \<Rightarrow> (exn + unit) \<times> 'w io" where
  "write_rows B [] s = (Inr (), s)"
| "write_rows B (r # rows) s =
     (case writerow B r of
        Inl e \<Rightarrow> (Inl e, s)
      | Inr line \<Rightarrow>
          write_rows B rows
            (s\<lparr>csv_out := Some ((case csv_out s of None \<Rightarrow> [] | Some ls \<Rightarrow> ls) @ [line])\<rparr>))"

fun write_organisms ::
  "'r pydantic \<Rightarrow> 'r yaml_data \<Rightarrow> (string \<times> 'w config) list \<Rightarrow> builtins \<Rightarrow>
     string list option \<Rightarrow> organism list \<Rightarrow> 'w io \<Rightarrow> (exn + unit) \<times> 'w io" where
  "write_organisms P data reg B source_ids [] s = (Inr (), s)"
| "write_organisms P data reg B source_ids (org # orgs) s =
     (case fetch_features_for_organism P data reg (organism_id org)
             (organism_scientific_name org) source_ids s of
        (Inl e, s') \<Rightarrow> (Inl e, s')
      | (Inr rows, s') \<Rightarrow>
          (case write_rows B rows s' of
             (Inl e, s'') \<Rightarrow> (Inl e, s'')
           | (Inr u, s'') \<Rightarrow> write_organisms P data reg B source_ids orgs s''))"

definition run_csv ::
  "'r pydantic \<Rightarrow> 'r yaml_data \<Rightarrow> (string \<times> 'w config) list \<Rightarrow> builtins \<Rightarrow>
     string list list \<Rightarrow> string list option \<Rightarrow> 'w io \<Rightarrow> (exn + unit) \<times> 'w io" where
  "run_csv P data reg B input_csv source_ids s =
     (case fieldnames input_csv of
        None \<Rightarrow> (Inl (Exn ValueError ''Input CSV has no header row.''), s)
      | Some names \<Rightarrow>
          (let missing = filter (\<lambda>c. c \<notin> set names) [''organism_id'', ''organism_scientific_name'']
           in if missing \<noteq> [] then
                (Inl (Exn ValueError
                       (''Input CSV missing required columns: '' @ join '', '' missing @
                        ''. Found columns: '' @ join '', '' names)), s)
              else
                (case read_organisms B 2 (DictReader input_csv) [] of
                   Inl e \<Rightarrow> (Inl e, s)
                 | Inr organisms \<Rightarrow>
                     write_organisms P data reg B source_ids organisms
                       (s\<lparr>csv_out :=
                            Some [HeaderLine [''organism_id'', ''feature_id'', ''source_id'',
                                              ''fetched_object'']]\<rparr>))))"

section \<open>Rate limiter\<close>

text \<open>
  \<open>RateLimiter\<close>, for one caller at a time (the lock is not modelled). Time is a
  real-valued clock. A \<open>scheduling\<close> says how much time passes around one call of
  \<open>wait\<close>: before it reads the clock, beyond the duration it asks \<open>time.sleep\<close> for, and
  before it reads the clock again to record the grant. \<open>sequential_waits\<close> is a sequence
  of calls and \<open>grant_times\<close> the clock values at which they return.
\<close>

record RateLimiter =
  min_interval :: real
  last_call :: real

definition RateLimiter_init :: "real \<Rightarrow> exn + RateLimiter" where
  "RateLimiter_init calls_per_second =
     (if calls_per_second \<le> 0 then Inl (Exn ValueError ''calls_per_second must be positive'')
      else Inr \<lparr>min_interval = 1 / calls_per_second, last_call = 0\<rparr>)"

record scheduling =
  before_call :: real
  oversleep :: real
  before_record :: real

definition scheduling_ok :: "scheduling \<Rightarrow> bool" where
  "scheduling_ok d = (0 \<le> before_call d \<and> 0 \<le> oversleep d \<and> 0 \<le> before_record d)"

definition time_sleep :: "real \<Rightarrow> real \<Rightarrow> real \<Rightarrow> real" where
  "time_sleep seconds extra clock = clock + seconds + extra"

definition RateLimiter_wait :: "scheduling \<Rightarrow> RateLimiter \<times> real \<Rightarrow> RateLimiter \<times> real" where
  "RateLimiter_wait d st =
     (case st of (self, clock) \<Rightarrow>
        (let now = clock + before_call d;
             wait_time = min_interval self - (now - last_call self);
             clock1 = (if wait_time > 0 then time_sleep wait_time (oversleep d) now else now);
             clock2 = clock1 + before_record d
         in (self\<lparr>last_call := clock2\<rparr>, clock2)))"

fun sequential_waits :: "scheduling list \<Rightarrow> RateLimiter \<times> real \<Rightarrow> RateLimiter \<times> real" where
  "sequential_waits [] st = st"
| "sequential_waits (d # ds) st = sequential_waits ds (RateLimiter_wait d st)"

fun grant_times :: "scheduling list \<Rightarrow> RateLimiter \<times> real \<Rightarrow> real list" where
  "grant_times [] st = []"
| "grant_times (d # ds) st =
     snd (RateLimiter_wait d st) # grant_times ds (RateLimiter_wait d st)"

section \<open>Retry policy\<close>

text \<open>
  \<open>retry_with_backoff\<close> configures a tenacity \<open>retry\<close> with
  \<open>stop_after_attempt(max_attempts)\<close>, \<open>wait_random_exponential(min_wait, max_wait)\<close>,
  \<open>retry_if_exception_type(retry_on)\<close> and \<open>reraise=True\<close>. The sleep between attempts,
  whose duration is random, is a parameter that acts on the state.
\<close>

record 's Retrying =
  stop_after_attempt :: int
  retry_if_exception_type :: "exc_class list"
  wait_random_exponential :: "nat \<Rightarrow> 's \<Rightarrow> 's"
  reraise :: bool

definition retry_with_backoff ::
  "int \<Rightarrow> real \<Rightarrow> real \<Rightarrow> exc_class list \<Rightarrow> (real \<Rightarrow> real \<Rightarrow> nat \<Rightarrow> 's \<Rightarrow> 's) \<Rightarrow> 's Retrying" where
  "retry_with_backoff max_attempts min_wait max_wait retry_on sleep =
     \<lparr>stop_after_attempt = max_attempts,
      retry_if_exception_type = retry_on,
      wait_random_exponential = sleep min_wait max_wait,
      reraise = True\<rparr>"

text \<open>
  Modelled from the spec: the loop that runs the policy is tenacity's, which is not
  among the sources. Following section 4.3, the operation is invoked until it succeeds
  or the attempts are exhausted; a failure outside the retryable classes is raised at
  once; between attempts the policy sleeps; attempts are numbered from 1 and the loop
  stops at the first attempt whose number reaches \<open>max_attempts\<close>; with \<open>reraise\<close> the
  last failure is raised as it is, otherwise a \<open>RetryError\<close> in its place. \<open>invoked\<close>
  counts the invocations of the operation.
\<close>

function retry_call ::
  "'s Retrying \<Rightarrow> ('s \<Rightarrow> (exn + 'a) \<times> 's) \<Rightarrow> nat \<Rightarrow> nat \<Rightarrow> 's \<Rightarrow> (exn + 'a) \<times> nat \<times> 's" where
  "retry_call R fn attempt_number invoked s =
     (case fn s of
        (Inr result, s') \<Rightarrow> (Inr result, Suc invoked, s')
      | (Inl e, s') \<Rightarrow>
          if \<not> isinstance e (retry_if_exception_type R) then (Inl e, Suc invoked, s')
          else if stop_after_attempt R \<le> int attempt_number then
            (if reraise R then (Inl e, Suc invoked, s')
             else (Inl (Exn RetryError []), Suc invoked, s'))
          else retry_call R fn (Suc attempt_number) (Suc invoked)
                 (wait_random_exponential R attempt_number s'))"
  by pat_completeness auto
termination
  by (relation "measure (\<lambda>(R, fn, attempt_number, invoked, s).
        nat (stop_after_attempt R - int attempt_number))") auto

declare retry_call.simps [simp del]

definition retrying ::
  "'s Retrying \<Rightarrow> ('s \<Rightarrow> (exn + 'a) \<times> 's) \<Rightarrow> 's \<Rightarrow> (exn + 'a) \<times> nat \<times> 's" where
  "retrying R fn s = retry_call R fn 1 0 s"

text \<open>
  An operation that plays a script: each invocation takes the next outcome.
\<close>

fun scripted :: "(exn + 'a) list \<Rightarrow> (exn + 'a) \<times> (exn + 'a) list" where
  "scripted [] = (Inl (Exn RuntimeError ''script exhausted''), [])"
| "scripted (outcome # later) = (outcome, later)"

section \<open>Source clients\<close>

text \<open>
  The constructors of the source clients, as functions of the process environment
  (\<open>os.environ\<close>, after \<open>load_dotenv\<close>) and of their arguments. \<open>falsy\<close> is Python's
  \<open>not v\<close> for an optional string and \<open>py_or\<close> is \<open>a or b\<close>. The \<open>FirecrawlApp\<close> object
  that \<open>FirecrawlClient\<close> builds after its check is not represented.
\<close>

type_synonym environ = "string \<rightharpoonup> string"

definition falsy :: "string option \<Rightarrow> bool" where
  "falsy v = (case v of None \<Rightarrow> True | Some s \<Rightarrow> s = [])"

definition py_or :: "string option \<Rightarrow> string option \<Rightarrow> string option" where
  "py_or a b = (if falsy a then b else a)"

record ExaClient =
  exa_api_key :: "string option"
  exa_headers :: "(string \<times> string option) list"

definition ExaClient_init :: "environ \<Rightarrow> exn + ExaClient" where
  "ExaClient_init env =
     (let api_key = env ''EXA_API_KEY''
      in Inr \<lparr>exa_api_key = api_key, exa_headers = [(''x-api-key'', api_key)]\<rparr>)"

record NCBIClient =
  ncbi_api_key :: "string option"
  ncbi_api_email :: "string option"
  ncbi_tool_id :: "string option"

definition NCBIClient_init ::
  "string option \<Rightarrow> string option \<Rightarrow> string option \<Rightarrow> environ \<Rightarrow> exn + NCBIClient" where
  "NCBIClient_init api_key api_email tool_id env =
     (let self_api_key = py_or api_key (env ''NCBI_API_KEY'');
          self_api_email = py_or api_email (env ''NCBI_API_EMAIL'');
          self_tool_id = py_or tool_id (Some ''organism_tractability'')
      in if falsy self_api_key then Inl (Exn ValueError ''NCBI_API_KEY must be provided'')
         else if falsy self_api_email then Inl (Exn ValueError ''NCBI_API_EMAIL must be provided'')
         else Inr \<lparr>ncbi_api_key = self_api_key, ncbi_api_email = self_api_email,
                   ncbi_tool_id = self_tool_id\<rparr>)"

record ProtocolsIOClient =
  access_token :: "string option"
  base_url :: "string option"

definition ProtocolsIOClient_init ::
  "string option \<Rightarrow> string option \<Rightarrow> environ \<Rightarrow> exn + ProtocolsIOClient" where
  "ProtocolsIOClient_init token url env =
     (let self_access_token = py_or token (env ''PROTOCOLS_IO_API_CLIENT_ACCESS_TOKEN'');
          self_base_url = py_or url (Some ''https://www.protocols.io/api/v3'')
      in if falsy self_access_token then
           Inl (Exn ValueError ''PROTOCOLS_IO_API_CLIENT_ACCESS_TOKEN must be provided'')
         else Inr \<lparr>access_token = self_access_token, base_url = self_base_url\<rparr>)"

record FirecrawlClient =
  firecrawl_api_key :: "string option"

definition FirecrawlClient_init :: "environ \<Rightarrow> exn + FirecrawlClient" where
  "FirecrawlClient_init env =
     (let api_key = env ''FIRECRAWL_API_KEY''
      in if falsy api_key then
           Inl (Exn ValueError ''FIRECRAWL_API_KEY environment variable is required'')
         else Inr \<lparr>firecrawl_api_key = api_key\<rparr>)"

record ATCCClient =
  firecrawl_client :: FirecrawlClient

definition ATCCClient_init :: "environ \<Rightarrow> exn + ATCCClient" where
  "ATCCClient_init env =
     (case FirecrawlClient_init env of
        Inl e \<Rightarrow> Inl e
      | Inr c \<Rightarrow> Inr \<lparr>firecrawl_client = c\<rparr>)"

record ExaAnswerClient =
  exa_client :: ExaClient

definition ExaAnswerClient_init :: "environ \<Rightarrow> exn + ExaAnswerClient" where
  "ExaAnswerClient_init env =
     (case ExaClient_init env of
        Inl e \<Rightarrow> Inl e
      | Inr c \<Rightarrow> Inr \<lparr>exa_client = c\<rparr>)"

section \<open>Specification vocabulary\<close>

text \<open>
  The words of the properties below: the distinct elements of a list in the order of
  their first occurrence; the catalog as loaded (empty when the load fails); the
  (source, feature) key of a row; the keys of the rows expected for a list of sources
  in a given order; the order in which a request processes the sources; the registry
  configurations of a list of keys; the state reached after \<open>k\<close> consecutive
  failures of an operation, each an instance of a class of \<open>retry_on\<close> and each
  followed by the given sleep, starting at attempt \<open>n\<close>; a record of the input that
  the validation loop refuses (its stripped name or id is empty, or \<open>int()\<close> refuses
  the id), and the organism a record is read as; and the stdout line that announces
  the fetch of a (source, feature) key.
\<close>

primrec first_occurrences :: "'a list \<Rightarrow> 'a list" where
  "first_occurrences [] = []"
| "first_occurrences (x # xs) = x # filter (\<lambda>y. y \<noteq> x) (first_occurrences xs)"

definition catalog_entries :: "'r pydantic \<Rightarrow> 'r yaml_data \<Rightarrow> FeatureMetadata list" where
  "catalog_entries P data =
     (case get_all_feature_metadata P data of Inl _ \<Rightarrow> [] | Inr features \<Rightarrow> features)"

definition row_key :: "FeatureRow \<Rightarrow> string \<times> string" where
  "row_key r = (row_source_id r, row_feature_id r)"

definition expected_keys :: "FeatureMetadata list \<Rightarrow> string list \<Rightarrow> (string \<times> string) list" where
  "expected_keys features order =
     concat (map (\<lambda>sid. map (\<lambda>f. (sid, feature_id f)) (filter (\<lambda>f. source_id f = sid) features))
               order)"

definition processing_order :: "(string \<times> 'c) list \<Rightarrow> string list option \<Rightarrow> string list" where
  "processing_order reg source_ids =
     (case source_ids of None \<Rightarrow> map fst reg | Some sids \<Rightarrow> first_occurrences sids)"

definition lookups :: "(string \<times> 'c) list \<Rightarrow> string list \<Rightarrow> (string \<times> 'c) list" where
  "lookups reg ks = concat (map (\<lambda>k. case map_of reg k of None \<Rightarrow> [] | Some c \<Rightarrow> [(k, c)]) ks)"

fun after_failures ::
  "exc_class list \<Rightarrow> (nat \<Rightarrow> 's \<Rightarrow> 's) \<Rightarrow> ('s \<Rightarrow> (exn + 'a) \<times> 's) \<Rightarrow> nat \<Rightarrow> nat \<Rightarrow> 's \<Rightarrow>
     's option" where
  "after_failures retry_on backoff fn n 0 s = Some s"
| "after_failures retry_on backoff fn n (Suc k) s =
     (case fn s of
        (Inl e, s') \<Rightarrow>
          if isinstance e retry_on
          then after_failures retry_on backoff fn (Suc n) k (backoff n s')
          else None
      | (Inr v, s') \<Rightarrow> None)"

definition bad_record :: "builtins \<Rightarrow> csv_dict \<Rightarrow> bool" where
  "bad_record B row =
     (strip (get_or_empty row ''organism_scientific_name'') = []
      \<or> strip (get_or_empty row ''organism_id'') = []
      \<or> int_of_str B (strip (get_or_empty row ''organism_id'')) = None)"

definition parsed_as :: "builtins \<Rightarrow> csv_dict \<Rightarrow> organism \<Rightarrow> bool" where
  "parsed_as B row org =
     (organism_scientific_name org = strip (get_or_empty row ''organism_scientific_name'')
      \<and> int_of_str B (strip (get_or_empty row ''organism_id'')) = Some (organism_id org))"

definition announced :: "string \<Rightarrow> int \<Rightarrow> string \<times> string \<Rightarrow> string \<times> int \<times> string \<times> string" where
  "announced name oid key = (name, oid, snd key, fst key)"

section \<open>Example inputs\<close>

text \<open>
  Inputs for the examples: a catalog whose values are strings, read by a validator that
  accepts every value as a string; adapters that answer \<open>None\<close>; a parser of unsigned
  decimals for \<open>int()\<close>; and three small input files.
\<close>

definition text_pydantic :: "string pydantic" where
  "text_pydantic =
     \<lparr>as_str = Some, as_int = (\<lambda>r. None), as_str_list = (\<lambda>r. None), is_none = (\<lambda>r. False),
      rejected = (\<lambda>name r. [(name, ''not accepted'')])\<rparr>"

definition feature_entry :: "string \<Rightarrow> string \<Rightarrow> string \<Rightarrow> string feature_dict" where
  "feature_entry fid sid descr =
     [''feature_id'' \<mapsto> fid, ''source_id'' \<mapsto> sid, ''display_name'' \<mapsto> fid,
      ''category'' \<mapsto> ''literature'', ''description'' \<mapsto> descr]"

definition example_data :: "string yaml_data" where
  "example_data =
     [''features'' \<mapsto>
        [feature_entry ''pubmed'' ''ncbi'' ''PubMed records'',
         feature_entry ''protocols'' ''protocols_io'' ''Public protocols'',
         feature_entry ''gene'' ''ncbi'' ''Gene records'']]"

definition catalog_missing_description :: "string yaml_data" where
  "catalog_missing_description =
     [''features'' \<mapsto>
        [feature_entry ''pubmed'' ''ncbi'' ''PubMed records'',
         (feature_entry ''gene'' ''ncbi'' ''Gene records'')(''description'' := None),
         feature_entry ''protocols'' ''protocols_io'' ''Public protocols'']]"

definition catalog_empty_description :: "string yaml_data" where
  "catalog_empty_description =
     [''features'' \<mapsto>
        [feature_entry ''pubmed'' ''ncbi'' ''PubMed records'',
         feature_entry ''gene'' ''ncbi'' []]]"

definition example_schedule :: "scheduling list" where
  "example_schedule =
     [\<lparr>before_call = 0, oversleep = 0, before_record = 0\<rparr>,
      \<lparr>before_call = 1 / 4, oversleep = 0, before_record = 0\<rparr>,
      \<lparr>before_call = 1, oversleep = 1 / 10, before_record = 0\<rparr>]"

definition no_sleep :: "real \<Rightarrow> real \<Rightarrow> nat \<Rightarrow> 's \<Rightarrow> 's" where
  "no_sleep min_wait max_wait attempt_number s = s"

definition example_retrying :: "(exn + string) list Retrying" where
  "example_retrying = retry_with_backoff 3 1 60 [RequestException, HTTPError] no_sleep"

definition is_digit :: "char \<Rightarrow> bool" where
  "is_digit c = (48 \<le> (of_char c :: nat) \<and> (of_char c :: nat) \<le> 57)"

definition unsigned_decimal :: "string \<Rightarrow> int option" where
  "unsigned_decimal s =
     (if s \<noteq> [] \<and> list_all is_digit s
      then Some (foldl (\<lambda>acc c. 10 * acc + (int (of_char c) - 48)) 0 s)
      else None)"

definition example_builtins :: builtins where
  "example_builtins =
     \<lparr>int_of_str = unsigned_decimal, repr_dict = (\<lambda>row. ''<row>''),
      json_dumps = (\<lambda>v. if plain v then Inr ''<json>''
                        else Inl (Exn TypeError ''Object is not JSON serializable''))\<rparr>"

definition csv_header :: "string list" where
  "csv_header = [''organism_scientific_name'', ''organism_id'']"

definition csv_bad_id :: "string list list" where
  "csv_bad_id =
     [csv_header, [''Chlorella vulgaris'', ''3077''], [''Escherichia coli'', ''abc'']]"

definition csv_blank_line :: "string list list" where
  "csv_blank_line = [csv_header, [], [''Escherichia coli'', ''abc'']]"

definition csv_no_id_column :: "string list list" where
  "csv_no_id_column = [[''organism_scientific_name''], [''Chlorella vulgaris'']]"


definition none_adapter :: "unit source_function" where
  "none_adapter oid name fm w = (Inr VNone, w)"

definition stub_adapters :: "unit adapters" where
  "stub_adapters =
     \<lparr>get_protocols_io = none_adapter, get_ncbi = none_adapter, get_nih_reporter = none_adapter,
      get_atcc = none_adapter, get_exa_answer = none_adapter\<rparr>"

definition initial_io :: "unit io" where
  "initial_io = \<lparr>world = (), stdout = [], csv_out = None\<rparr>"

section \<open>Lists, dictionaries and strings\<close>

lemma join_sublist: "x \<in> set xs \<Longrightarrow> sublist x (join sep xs)"
proof (induction sep xs rule: join.induct)
  case (1 sep) then show ?case by simp
next
  case (2 sep y) then show ?case by simp
next
  case (3 sep a b ys)
  show ?case
  proof (cases "x = a")
    case True
    then show ?thesis by (simp add: sublist_append_rightI)
  next
    case False
    with 3 have "sublist x (join sep (b # ys))" by simp
    then obtain ps ss where "join sep (b # ys) = ps @ x @ ss"
      by (auto simp: sublist_def)
    then have "join sep (a # b # ys) = (a @ sep @ ps) @ x @ ss" by simp
    then show ?thesis unfolding sublist_def by blast
  qed
qed

lemma fetch_features_rows:
  "fetch_features cfg oid name fms rows s = (Inr rows', s') \<Longrightarrow>
   \<exists>new. rows' = rows @ new \<and> map row_feature_id new = map feature_id fms \<and>
         map row_source_id new = map source_id fms \<and>
         list_all (\<lambda>r. row_organism_id r = oid) new"
proof (induction fms arbitrary: rows s)
  case Nil
  then show ?case by simp
next
  case (Cons fm fms)
  then show ?case
    by (fastforce simp: Let_def split: prod.splits sum.splits)
qed

lemma set_first_occurrences [simp]: "set (first_occurrences xs) = set xs"
  by (induction xs) auto

lemma distinct_first_occurrences [simp]: "distinct (first_occurrences xs)"
  by (induction xs) auto

lemma first_occurrences_distinct: "distinct xs \<Longrightarrow> first_occurrences xs = xs"
  by (induction xs) (auto intro: filter_True simp: filter_id_conv)

lemma first_occurrences_idem [simp]:
  "first_occurrences (first_occurrences xs) = first_occurrences xs"
  by (simp add: first_occurrences_distinct)

lemma keys_dict_set:
  "map fst (dict_set k v d) = (if k \<in> set (map fst d) then map fst d else map fst d @ [k])"
  by (induction d) (auto simp: rev_image_eqI)

lemma dict_set_same:
  "(\<And>v'. (k, v') \<in> set d \<Longrightarrow> v' = v) \<Longrightarrow> k \<in> set (map fst d) \<Longrightarrow> dict_set k v d = d"
proof (induction d)
  case Nil
  then show ?case by simp
next
  case (Cons p d)
  obtain k' v' where p: "p = (k', v')" by (cases p)
  show ?case
  proof (cases "k' = k")
    case True
    with Cons.prems(1) p have "v' = v" by simp
    with True p show ?thesis by simp
  next
    case False
    with Cons p show ?thesis by auto
  qed
qed

lemma dict_set_new: "k \<notin> set (map fst d) \<Longrightarrow> dict_set k v d = d @ [(k, v)]"
  by (induction d) auto

lemma select_sources_acc:
  assumes "set sids \<subseteq> set (map fst reg)"
    and "\<And>k v. (k, v) \<in> set acc \<Longrightarrow> map_of reg k = Some v"
  shows "select_sources reg sids acc =
           Inr (acc @ lookups reg (filter (\<lambda>k. k \<notin> set (map fst acc)) (first_occurrences sids)))"
  using assms
proof (induction sids arbitrary: acc)
  case Nil
  then show ?case by (simp add: lookups_def)
next
  case (Cons sid sids)
  from Cons.prems(1) obtain c where c: "map_of reg sid = Some c"
    by (metis list.set_intros(1) map_of_eq_None_iff not_Some_eq set_map subsetD)
  show ?case
  proof (cases "sid \<in> set (map fst acc)")
    case True
    have same: "dict_set sid c acc = acc"
    proof (rule dict_set_same[OF _ True])
      fix v' assume "(sid, v') \<in> set acc"
      with Cons.prems(2) c show "v' = c" by fastforce
    qed
    have "filter (\<lambda>k. k \<notin> set (map fst acc)) (filter (\<lambda>y. y \<noteq> sid) (first_occurrences sids))
          = filter (\<lambda>k. k \<notin> set (map fst acc)) (first_occurrences sids)"
      using True by (auto simp: filter_filter intro!: filter_cong)
    with Cons c same True show ?thesis by simp
  next
    case False
    have new: "dict_set sid c acc = acc @ [(sid, c)]" using False by (rule dict_set_new)
    have "filter (\<lambda>k. k \<notin> set (map fst (acc @ [(sid, c)]))) (first_occurrences sids)
          = filter (\<lambda>k. k \<notin> set (map fst acc)) (filter (\<lambda>y. y \<noteq> sid) (first_occurrences sids))"
      by (auto simp: filter_filter intro!: filter_cong)
    moreover have "select_sources reg sids (acc @ [(sid, c)]) =
        Inr ((acc @ [(sid, c)]) @
             lookups reg (filter (\<lambda>k. k \<notin> set (map fst (acc @ [(sid, c)])))
                            (first_occurrences sids)))"
    proof (rule Cons.IH)
      show "set sids \<subseteq> set (map fst reg)" using Cons.prems(1) by simp
      fix k v assume "(k, v) \<in> set (acc @ [(sid, c)])"
      then show "map_of reg k = Some v" using Cons.prems(2) c by auto
    qed
    ultimately show ?thesis
      using c new False by (simp add: lookups_def)
  qed
qed

section \<open>Source selection and row order\<close>

lemma keys_lookups: "set ks \<subseteq> set (map fst reg) \<Longrightarrow> map fst (lookups reg ks) = ks"
proof (induction ks)
  case Nil
  then show ?case by (simp add: lookups_def)
next
  case (Cons k ks)
  then obtain c where "map_of reg k = Some c"
    by (metis list.set_intros(1) map_of_eq_None_iff not_Some_eq set_map subsetD)
  with Cons show ?case by (simp add: lookups_def)
qed

lemma lookups_in_registry: "(k, c) \<in> set (lookups reg ks) \<Longrightarrow> map_of reg k = Some c"
  by (auto simp: lookups_def split: option.splits)

lemma get_sources_to_process_None: "get_sources_to_process reg None = Inr reg"
  by (simp add: get_sources_to_process_def)

lemma get_sources_to_process_valid:
  assumes "set sids \<subseteq> set (map fst reg)"
  shows "get_sources_to_process reg (Some sids) = Inr (lookups reg (first_occurrences sids))"
proof -
  have "filter (\<lambda>sid. sid \<notin> set (map fst reg)) sids = []"
    using assms by (auto simp: filter_empty_conv)
  moreover have "select_sources reg sids [] = Inr (lookups reg (first_occurrences sids))"
    using select_sources_acc[of sids reg "[]"] assms by simp
  ultimately show ?thesis by (simp add: get_sources_to_process_def)
qed

lemma get_sources_to_process_invalid:
  assumes "\<not> set sids \<subseteq> set (map fst reg)"
  shows "get_sources_to_process reg (Some sids) =
           Inl (Exn ValueError
                 (''Invalid source IDs: '' @
                  join '', '' (filter (\<lambda>sid. sid \<notin> set (map fst reg)) sids) @
                  ''. Available sources: '' @ join '', '' (map fst reg)))"
proof -
  have "filter (\<lambda>sid. sid \<notin> set (map fst reg)) sids \<noteq> []"
    using assms by (auto simp: filter_empty_conv)
  then show ?thesis by (simp add: get_sources_to_process_def Let_def)
qed

lemma by_source_catalog:
  "get_feature_metadata_by_source P data sid = Inr fms \<Longrightarrow>
   fms = filter (\<lambda>f. source_id f = sid) (catalog_entries P data)"
  by (auto simp: get_feature_metadata_by_source_def catalog_entries_def split: sum.splits)

lemma fetch_features_keys:
  assumes "fetch_features cfg oid name fms rows s = (Inr rows', s')"
    and "\<forall>f \<in> set fms. source_id f = sid"
  shows "map row_key rows' = map row_key rows @ map (\<lambda>f. (sid, feature_id f)) fms"
proof -
  from fetch_features_rows[OF assms(1)] obtain new where new:
    "rows' = rows @ new" "map row_feature_id new = map feature_id fms"
    "map row_source_id new = map source_id fms" by blast
  have "map row_key new = zip (map row_source_id new) (map row_feature_id new)"
    by (induction new) (auto simp: row_key_def)
  also have "\<dots> = zip (map source_id fms) (map feature_id fms)" using new by simp
  also have "\<dots> = map (\<lambda>f. (sid, feature_id f)) fms"
    using assms(2) by (induction fms) auto
  finally show ?thesis using new(1) by simp
qed

lemma fetch_sources_keys:
  "fetch_sources P data oid name srcs rows s = (Inr rows', s') \<Longrightarrow>
   map row_key rows' = map row_key rows @ expected_keys (catalog_entries P data) (map fst srcs)"
proof (induction srcs arbitrary: rows s)
  case Nil
  then show ?case by (simp add: expected_keys_def)
next
  case (Cons src srcs)
  obtain sid cfg where src: "src = (sid, cfg)" by (cases src)
  from Cons.prems src obtain fms rows1 s1 where
    fms: "get_feature_metadata_by_source P data sid = Inr fms" and
    step: "fetch_features cfg oid name fms rows s = (Inr rows1, s1)" and
    rest: "fetch_sources P data oid name srcs rows1 s1 = (Inr rows', s')"
    by (auto split: sum.splits prod.splits)
  have f: "fms = filter (\<lambda>f. source_id f = sid) (catalog_entries P data)"
    using fms by (rule by_source_catalog)
  have "map row_key rows1 = map row_key rows @ map (\<lambda>f. (sid, feature_id f)) fms"
    using step by (rule fetch_features_keys) (simp add: f)
  with Cons.IH[OF rest] f src show ?case by (simp add: expected_keys_def)
qed

lemma fetch_rows_order:
  assumes "fetch_features_for_organism P data reg oid name source_ids s = (Inr rows, s')"
  shows "map row_key rows = expected_keys (catalog_entries P data) (processing_order reg source_ids)"
proof (cases source_ids)
  case None
  with assms have "fetch_sources P data oid name reg [] s = (Inr rows, s')"
    by (simp add: fetch_features_for_organism_def get_sources_to_process_None)
  from fetch_sources_keys[OF this] None show ?thesis by (simp add: processing_order_def)
next
  case (Some sids)
  show ?thesis
  proof (cases "set sids \<subseteq> set (map fst reg)")
    case True
    with assms Some have
      "fetch_sources P data oid name (lookups reg (first_occurrences sids)) [] s = (Inr rows, s')"
      by (simp add: fetch_features_for_organism_def get_sources_to_process_valid)
    from fetch_sources_keys[OF this] True Some show ?thesis
      by (simp add: processing_order_def keys_lookups)
  next
    case False
    with assms Some show ?thesis
      by (simp add: fetch_features_for_organism_def get_sources_to_process_invalid)
  qed
qed

lemma registry_keys:
  "map fst (SOURCE_REGISTRY A) = [''protocols_io'', ''ncbi'', ''nih_reporter'', ''atcc'', ''exa_answer'']"
  by (simp add: SOURCE_REGISTRY_def)

lemma fetch_features_none:
  assumes "\<And>fm w. func cfg oid name fm w = (Inr VNone, w)"
  shows "fetch_features cfg oid name fms rows s =
    (Inr (rows @ map (\<lambda>f. \<lparr>row_organism_id = oid, row_feature_id = feature_id f,
                            row_source_id = source_id f, fetched_object = VDict []\<rparr>) fms),
     s\<lparr>stdout := stdout s @ map (\<lambda>f. (name, oid, feature_id f, source_id f)) fms\<rparr>)"
proof (induction fms arbitrary: rows s)
  case Nil
  then show ?case by simp
next
  case (Cons fm fms)
  show ?case by (simp add: assms Cons.IH fetched_obj_def)
qed

lemma example_fetch:
  "fetch_features_for_organism text_pydantic example_data (SOURCE_REGISTRY stub_adapters)
     3077 ''Chlorella vulgaris'' (Some [''ncbi'', ''protocols_io'']) initial_io =
   (Inr [\<lparr>row_organism_id = 3077, row_feature_id = ''pubmed'', row_source_id = ''ncbi'',
           fetched_object = VDict []\<rparr>,
         \<lparr>row_organism_id = 3077, row_feature_id = ''gene'', row_source_id = ''ncbi'',
           fetched_object = VDict []\<rparr>,
         \<lparr>row_organism_id = 3077, row_feature_id = ''protocols'', row_source_id = ''protocols_io'',
           fetched_object = VDict []\<rparr>],
    \<lparr>world = (),
     stdout = [(''Chlorella vulgaris'', 3077, ''pubmed'', ''ncbi''),
               (''Chlorella vulgaris'', 3077, ''gene'', ''ncbi''),
               (''Chlorella vulgaris'', 3077, ''protocols'', ''protocols_io'')],
     csv_out = None\<rparr>)"
  by code_simp


lemma fetched_obj_plain_unchanged: "plain v \<Longrightarrow> v \<noteq> VNone \<Longrightarrow> fetched_obj v = v"
  by (cases v) (auto simp: fetched_obj_def)

lemma fetch_features_total:
  assumes "\<And>fm w. \<exists>r w'. func cfg oid name fm w = (Inr r, w')"
  shows "\<exists>rows' s'. fetch_features cfg oid name fms rows s = (Inr rows', s')"
proof (induction fms arbitrary: rows s)
  case Nil
  then show ?case by simp
next
  case (Cons fm fms)
  obtain r w' where
    "func cfg oid name fm (world (s\<lparr>stdout := stdout s @ [(name, oid, feature_id fm, source_id fm)]\<rparr>)) = (Inr r, w')"
    using assms by blast
  with Cons.IH show ?case by (simp add: Let_def)
qed

lemma lookups_single: "map_of reg k = Some c \<Longrightarrow> lookups reg [k] = [(k, c)]"
  by (simp add: lookups_def)

lemma map_of_registered: "map_of reg k = Some c \<Longrightarrow> k \<in> set (map fst reg)"
  by (metis map_of_eq_None_iff option.distinct(1) set_map)

lemma fetch_single_source:
  assumes "map_of reg k = Some cfg"
  shows "fetch_features_for_organism P data reg oid name (Some [k]) s =
           fetch_sources P data oid name [(k, cfg)] [] s"
  using assms map_of_registered[OF assms]
  by (simp add: fetch_features_for_organism_def get_sources_to_process_valid lookups_single)

lemma catalog_entries_Inr: "get_all_feature_metadata P data = Inr features \<Longrightarrow> catalog_entries P data = features"
  by (simp add: catalog_entries_def)

lemma by_source_Inr:
  "get_all_feature_metadata P data = Inr features \<Longrightarrow>
   get_feature_metadata_by_source P data sid = Inr (filter (\<lambda>f. source_id f = sid) features)"
  by (simp add: get_feature_metadata_by_source_def)

lemma expected_keys_single:
  "expected_keys features [k] = map (\<lambda>f. (k, feature_id f)) (filter (\<lambda>f. source_id f = k) features)"
  by (simp add: expected_keys_def)

lemma example_catalog:
  "get_all_feature_metadata text_pydantic example_data =
     Inr [\<lparr>feature_id = ''pubmed'', source_id = ''ncbi'', display_name = ''pubmed'',
            category = ''literature'', description = ''PubMed records'',
            organism_query_type = None, answer_enum = None, query = None, max_products = None,
            feature_type = None\<rparr>,
          \<lparr>feature_id = ''protocols'', source_id = ''protocols_io'', display_name = ''protocols'',
            category = ''literature'', description = ''Public protocols'',
            organism_query_type = None, answer_enum = None, query = None, max_products = None,
            feature_type = None\<rparr>,
          \<lparr>feature_id = ''gene'', source_id = ''ncbi'', display_name = ''gene'',
            category = ''literature'', description = ''Gene records'',
            organism_query_type = None, answer_enum = None, query = None, max_products = None,
            feature_type = None\<rparr>]"
  by code_simp

lemma example_fetch_ncbi:
  "fetch_features_for_organism text_pydantic example_data (SOURCE_REGISTRY stub_adapters)
     3077 ''Chlorella vulgaris'' (Some [''ncbi'']) initial_io =
   (Inr [\<lparr>row_organism_id = 3077, row_feature_id = ''pubmed'', row_source_id = ''ncbi'',
           fetched_object = VDict []\<rparr>,
         \<lparr>row_organism_id = 3077, row_feature_id = ''gene'', row_source_id = ''ncbi'',
           fetched_object = VDict []\<rparr>],
    \<lparr>world = (),
     stdout = [(''Chlorella vulgaris'', 3077, ''pubmed'', ''ncbi''),
               (''Chlorella vulgaris'', 3077, ''gene'', ''ncbi'')],
     csv_out = None\<rparr>)"
  by code_simp

lemma example_ncbi_registered:
  "map_of (SOURCE_REGISTRY stub_adapters) ''ncbi'' = Some \<lparr>func = none_adapter\<rparr>"
  by (simp add: SOURCE_REGISTRY_def stub_adapters_def)

lemma sublist_in_context: "sublist x y \<Longrightarrow> sublist x (a @ y @ b)"
proof -
  assume "sublist x y"
  then obtain ps ss where "y = ps @ x @ ss" by (auto simp: sublist_def)
  then have "a @ y @ b = (a @ ps) @ x @ (ss @ b)" by simp
  then show ?thesis unfolding sublist_def by blast
qed

lemma lookups_distinct_keys:
  assumes "set sids \<subseteq> set (map fst reg)"
  shows "map fst (lookups reg (first_occurrences sids)) = first_occurrences sids"
  using assms by (simp add: keys_lookups)

lemma expected_keys_Cons:
  "expected_keys features (k # order) =
     map (\<lambda>f. (k, feature_id f)) (filter (\<lambda>f. source_id f = k) features) @
     expected_keys features order"
  by (simp add: expected_keys_def)

lemma expected_keys_of_source:
  "distinct order \<Longrightarrow>
   filter (\<lambda>p. fst p = x) (expected_keys features order) =
     (if x \<in> set order
      then map (\<lambda>f. (x, feature_id f)) (filter (\<lambda>f. source_id f = x) features) else [])"
proof (induction order)
  case Nil
  then show ?case by (simp add: expected_keys_def)
next
  case (Cons k order)
  have here: "filter (\<lambda>p. fst p = x)
        (map (\<lambda>f. (k, feature_id f)) (filter (\<lambda>f. source_id f = k) features)) =
      (if k = x then map (\<lambda>f. (k, feature_id f)) (filter (\<lambda>f. source_id f = k) features) else [])"
    by (simp add: filter_map comp_def)
  from Cons show ?case by (auto simp: expected_keys_Cons here)
qed

lemma rows_of_source_count:
  assumes "map row_key rows = expected_keys features order" and "distinct order"
  shows "length (filter (\<lambda>r. row_source_id r = x) rows) =
         (if x \<in> set order then length (filter (\<lambda>f. source_id f = x) features) else 0)"
proof -
  have "length (filter (\<lambda>r. row_source_id r = x) rows) =
        length (filter (\<lambda>p. fst p = x) (map row_key rows))"
    by (simp add: filter_map comp_def row_key_def)
  also have "\<dots> = (if x \<in> set order then length (filter (\<lambda>f. source_id f = x) features) else 0)"
    by (simp add: assms(1) expected_keys_of_source[OF assms(2)])
  finally show ?thesis .
qed

section \<open>Catalog validation\<close>

lemma model_validate_Inl:
  "model_validate P f = Inl e \<Longrightarrow> \<exists>errs. e = PydanticValidationError errs"
  by (auto simp: model_validate_def Let_def split: sum.splits)

lemma model_validate_description:
  assumes "required_str P f ''description'' 1 = Inl es"
  shows "model_validate P f =
     Inl (PydanticValidationError
        (errors_of (required_str P f ''feature_id'' 0) @
         errors_of (required_str P f ''source_id'' 0) @
         errors_of (required_str P f ''display_name'' 0) @
         errors_of (required_str P f ''category'' 0) @ es @
         errors_of (optional_field P (as_str P) f ''organism_query_type'') @
         errors_of (optional_field P (as_str_list P) f ''answer_enum'') @
         errors_of (optional_field P (as_str P) f ''query'') @
         errors_of (optional_field P (as_int P) f ''max_products'') @
         errors_of (optional_field P (as_str P) f ''type'')))"
  using assms by (simp add: model_validate_def Let_def errors_of_def split: sum.splits)

lemma validate_each_Inr:
  "validate_each P fs = Inr ms \<Longrightarrow> list_all2 (\<lambda>f m. model_validate P f = Inr m) fs ms"
  by (induction fs arbitrary: ms) (auto split: sum.splits)

lemma validate_each_all_valid:
  "list_all2 (\<lambda>f m. model_validate P f = Inr m) fs ms \<Longrightarrow> validate_each P fs = Inr ms"
  by (induction fs ms rule: list_all2_induct) auto

lemma validate_each_Inl:
  "f \<in> set fs \<Longrightarrow> model_validate P f = Inl e \<Longrightarrow>
   \<exists>errs. validate_each P fs = Inl (PydanticValidationError errs)"
proof (induction fs)
  case Nil
  then show ?case by simp
next
  case (Cons g fs)
  show ?case
  proof (cases "model_validate P g")
    case (Inl e')
    then show ?thesis using model_validate_Inl[OF Inl] by auto
  next
    case (Inr m)
    with Cons have "f \<in> set fs" by auto
    from Cons.IH[OF this Cons.prems(2)] Inr show ?thesis by auto
  qed
qed

section \<open>Rate limiter spacing\<close>

lemma RateLimiter_wait_step:
  assumes "scheduling_ok d" and "RateLimiter_wait d (self, clock) = (self', clock')"
  shows "clock \<le> clock'" and "last_call self' = clock'"
    and "min_interval self' = min_interval self"
    and "last_call self + min_interval self \<le> clock'"
  using assms
  by (auto simp: RateLimiter_wait_def scheduling_ok_def time_sleep_def Let_def split: if_splits)

lemma grants_spaced:
  assumes "list_all scheduling_ok ds" and "last_call self = clock"
  shows "successively (\<lambda>a b. a + min_interval self \<le> b) (clock # grant_times ds (self, clock))"
  using assms
proof (induction ds arbitrary: self clock)
  case Nil
  then show ?case by simp
next
  case (Cons d ds)
  obtain self' clock' where step: "RateLimiter_wait d (self, clock) = (self', clock')"
    by (cases "RateLimiter_wait d (self, clock)")
  from Cons.prems have ok: "scheduling_ok d" and rest: "list_all scheduling_ok ds" by simp_all
  note facts = RateLimiter_wait_step[OF ok step]
  have "successively (\<lambda>a b. a + min_interval self' \<le> b) (clock' # grant_times ds (self', clock'))"
    using rest facts(2) by (rule Cons.IH)
  moreover have "clock + min_interval self \<le> clock'" using facts(4) Cons.prems(2) by simp
  ultimately show ?case using step facts(3) by simp
qed

lemma grants_spaced_any:
  assumes "list_all scheduling_ok ds"
  shows "successively (\<lambda>a b. a + min_interval self \<le> b) (grant_times ds (self, clock))"
proof (cases ds)
  case Nil
  then show ?thesis by simp
next
  case (Cons d ds')
  obtain self' clock' where step: "RateLimiter_wait d (self, clock) = (self', clock')"
    by (cases "RateLimiter_wait d (self, clock)")
  from assms Cons have ok: "scheduling_ok d" and rest: "list_all scheduling_ok ds'" by simp_all
  note facts = RateLimiter_wait_step[OF ok step]
  from grants_spaced[OF rest facts(2)] facts(3) step Cons show ?thesis by simp
qed

lemma waits_after_grant:
  assumes "list_all scheduling_ok ds" and "last_call self = clock" and "0 \<le> min_interval self"
  shows "clock + real (length ds) * min_interval self \<le> snd (sequential_waits ds (self, clock))"
  using assms
proof (induction ds arbitrary: self clock)
  case Nil
  then show ?case by simp
next
  case (Cons d ds)
  obtain self' clock' where step: "RateLimiter_wait d (self, clock) = (self', clock')"
    by (cases "RateLimiter_wait d (self, clock)")
  from Cons.prems have ok: "scheduling_ok d" and rest: "list_all scheduling_ok ds" by simp_all
  note facts = RateLimiter_wait_step[OF ok step]
  have "clock' + real (length ds) * min_interval self' \<le> snd (sequential_waits ds (self', clock'))"
    using rest facts(2) Cons.prems(3) facts(3) by (intro Cons.IH) simp_all
  moreover have "clock + min_interval self \<le> clock'" using facts(4) Cons.prems(2) by simp
  ultimately show ?case using step facts(3) by (simp add: algebra_simps)
qed

lemma waits_total:
  assumes "list_all scheduling_ok ds" and "ds \<noteq> []" and "0 \<le> min_interval self"
  shows "clock + (real (length ds) - 1) * min_interval self \<le> snd (sequential_waits ds (self, clock))"
proof -
  from assms(2) obtain d ds' where ds: "ds = d # ds'" by (cases ds) auto
  obtain self' clock' where step: "RateLimiter_wait d (self, clock) = (self', clock')"
    by (cases "RateLimiter_wait d (self, clock)")
  from assms ds have ok: "scheduling_ok d" and rest: "list_all scheduling_ok ds'" by simp_all
  note facts = RateLimiter_wait_step[OF ok step]
  have "clock' + real (length ds') * min_interval self' \<le> snd (sequential_waits ds' (self', clock'))"
    using rest facts(2) assms(3) facts(3) by (intro waits_after_grant) simp_all
  with facts(1) facts(3) step ds show ?thesis by (simp add: algebra_simps)
qed

section \<open>Retry loop\<close>

lemma retry_call_after_failures:
  "after_failures (retry_if_exception_type R) (wait_random_exponential R) fn n k s = Some s1 \<Longrightarrow>
   int n + int k \<le> stop_after_attempt R \<Longrightarrow>
   retry_call R fn n i s = retry_call R fn (n + k) (i + k) s1"
proof (induction k arbitrary: n i s)
  case 0
  then show ?case by simp
next
  case (Suc k)
  from Suc.prems(1) obtain e s' where
    fails: "fn s = (Inl e, s')" and retryable: "isinstance e (retry_if_exception_type R)" and
    rest: "after_failures (retry_if_exception_type R) (wait_random_exponential R) fn (Suc n) k
             (wait_random_exponential R n s') = Some s1"
    by (auto split: prod.splits sum.splits if_splits)
  from Suc.prems(2) have more: "\<not> stop_after_attempt R \<le> int n" by simp
  from Suc.prems(2) have "int (Suc n) + int k \<le> stop_after_attempt R" by simp
  from Suc.IH[OF rest this, of "Suc i"]
  have "retry_call R fn (Suc n) (Suc i) (wait_random_exponential R n s') =
        retry_call R fn (n + Suc k) (i + Suc k) s1" by simp
  moreover have "retry_call R fn n i s =
        retry_call R fn (Suc n) (Suc i) (wait_random_exponential R n s')"
    by (subst retry_call.simps) (simp add: fails retryable more)
  ultimately show ?case by simp
qed

lemma retry_call_success:
  "fn s = (Inr v, s') \<Longrightarrow> retry_call R fn n i s = (Inr v, Suc i, s')"
  by (subst retry_call.simps) simp

lemma retry_call_not_retryable:
  "fn s = (Inl e, s') \<Longrightarrow> \<not> isinstance e (retry_if_exception_type R) \<Longrightarrow>
   retry_call R fn n i s = (Inl e, Suc i, s')"
  by (subst retry_call.simps) simp

lemma retry_call_exhausted:
  "fn s = (Inl e, s') \<Longrightarrow> stop_after_attempt R \<le> int n \<Longrightarrow> reraise R \<Longrightarrow>
   retry_call R fn n i s = (Inl e, Suc i, s')"
  by (subst retry_call.simps) simp

lemma retry_call_bounded:
  "fst (snd (retry_call R fn n i s)) \<le> i + max 1 (nat (stop_after_attempt R - int n + 1))"
proof (induction R fn n i s rule: retry_call.induct)
  case (1 R fn n i s)
  show ?case
  proof (cases "fn s")
    case (Pair r s')
    show ?thesis
    proof (cases r)
      case (Inr v)
      with Pair show ?thesis by (simp add: retry_call_success)
    next
      case (Inl e)
      show ?thesis
      proof (cases "\<not> isinstance e (retry_if_exception_type R) \<or> stop_after_attempt R \<le> int n")
        case True
        with Pair Inl show ?thesis by (subst retry_call.simps) auto
      next
        case False
        define c where "c = fst (snd (retry_call R fn (Suc n) (Suc i) (wait_random_exponential R n s')))"
        define m where "m = nat (stop_after_attempt R - int n)"
        from False have pos: "0 < stop_after_attempt R - int n" by simp
        have e1: "nat (stop_after_attempt R - int (Suc n) + 1) = m" unfolding m_def by simp
        have e2: "nat (stop_after_attempt R - int n + 1) = Suc m" unfolding m_def using pos by arith
        have e3: "1 \<le> m" unfolding m_def using pos by arith
        from False "1.IH"[OF Pair[symmetric, unfolded Inl]]
        have "c \<le> Suc i + max 1 (nat (stop_after_attempt R - int (Suc n) + 1))"
          unfolding c_def by simp
        then have bound: "c \<le> Suc i + m" unfolding e1 using e3 by (simp add: max_def)
        have "retry_call R fn n i s =
            retry_call R fn (Suc n) (Suc i) (wait_random_exponential R n s')"
          using False Pair Inl by (subst retry_call.simps) simp
        then have "fst (snd (retry_call R fn n i s)) = c" unfolding c_def by simp
        with bound show ?thesis unfolding e2 by (simp add: max_def)
      qed
    qed
  qed
qed

section \<open>Input validation of the batch driver\<close>

lemma read_organisms_first_bad:
  assumes "k < length rows"
    and "\<forall>j<k. \<exists>org. parse_row B (i + j) (rows ! j) = Inr org"
    and "parse_row B (i + k) (rows ! k) = Inl e"
  shows "read_organisms B i rows acc = Inl e"
  using assms
proof (induction rows arbitrary: i k acc)
  case Nil
  then show ?case by simp
next
  case (Cons row rows)
  show ?case
  proof (cases k)
    case 0
    with Cons.prems(3) show ?thesis by simp
  next
    case (Suc k')
    from Cons.prems(2) Suc obtain org where first: "parse_row B i row = Inr org" by force
    have "read_organisms B (Suc i) rows (acc @ [org]) = Inl e"
    proof (rule Cons.IH[of k'])
      show "k' < length rows" using Cons.prems(1) Suc by simp
      show "\<forall>j<k'. \<exists>org. parse_row B (Suc i + j) (rows ! j) = Inr org"
      proof (intro allI impI)
        fix j assume "j < k'"
        then have "Suc j < k" using Suc by simp
        with Cons.prems(2) have "\<exists>org. parse_row B (i + Suc j) ((row # rows) ! Suc j) = Inr org"
          by blast
        then show "\<exists>org. parse_row B (Suc i + j) (rows ! j) = Inr org" by simp
      qed
      show "parse_row B (Suc i + k') (rows ! k') = Inl e" using Cons.prems(3) Suc by simp
    qed
    with first show ?thesis by simp
  qed
qed

lemma filter_nth_prefix:
  "k < length xs \<Longrightarrow> \<forall>x \<in> set (take (Suc k) xs). P x \<Longrightarrow>
   k < length (filter P xs) \<and> filter P xs ! k = xs ! k"
proof (induction xs arbitrary: k)
  case Nil
  then show ?case by simp
next
  case (Cons x xs)
  then show ?case by (cases k) auto
qed

lemma DictReader_nth:
  assumes "k < length rest" and "[] \<notin> set (take (Suc k) rest)"
  shows "k < length (DictReader (header # rest))"
    and "DictReader (header # rest) ! k = dict_row header ((header # rest) ! (k + 1))"
proof -
  have "\<forall>x \<in> set (take (Suc k) rest). x \<noteq> []" using assms(2) by auto
  from filter_nth_prefix[OF assms(1) this]
  have *: "k < length (filter (\<lambda>row. row \<noteq> []) rest)"
    "filter (\<lambda>row. row \<noteq> []) rest ! k = rest ! k" by simp_all
  from * show "k < length (DictReader (header # rest))" by (simp add: DictReader_def)
  from * show "DictReader (header # rest) ! k = dict_row header ((header # rest) ! (k + 1))"
    by (simp add: DictReader_def)
qed

lemma run_csv_header_ok:
  assumes "fieldnames input_csv = Some names"
    and "{''organism_scientific_name'', ''organism_id''} \<subseteq> set names"
  shows "run_csv P data reg B input_csv source_ids s =
     (case read_organisms B 2 (DictReader input_csv) [] of
        Inl e \<Rightarrow> (Inl e, s)
      | Inr organisms \<Rightarrow>
          write_organisms P data reg B source_ids organisms
            (s\<lparr>csv_out := Some [HeaderLine [''organism_id'', ''feature_id'', ''source_id'',
                                              ''fetched_object'']]\<rparr>))"
  using assms by (simp add: run_csv_def)

lemma run_csv_missing_columns:
  assumes "fieldnames input_csv = Some names"
    and "\<not> {''organism_scientific_name'', ''organism_id''} \<subseteq> set names"
  shows "run_csv P data reg B input_csv source_ids s =
     (Inl (Exn ValueError
        (''Input CSV missing required columns: '' @
         join '', '' (filter (\<lambda>c. c \<notin> set names) [''organism_id'', ''organism_scientific_name'']) @
         ''. Found columns: '' @ join '', '' names)), s)"
proof -
  have "filter (\<lambda>c. c \<notin> set names) [''organism_id'', ''organism_scientific_name''] \<noteq> []"
    using assms(2) by auto
  with assms(1) show ?thesis by (simp add: run_csv_def Let_def)
qed

section \<open>What a fetch announces, and when it returns\<close>

lemma fetch_features_stdout:
  "fetch_features cfg oid name fms rows s = (Inr rows', s') \<Longrightarrow>
   stdout s' = stdout s @ map (\<lambda>f. (name, oid, feature_id f, source_id f)) fms"
proof (induction fms arbitrary: rows s)
  case Nil
  then show ?case by simp
next
  case (Cons fm fms)
  let ?s1 = "s\<lparr>stdout := stdout s @ [(name, oid, feature_id fm, source_id fm)]\<rparr>"
  from Cons.prems obtain result w where
    call: "func cfg oid name fm (world ?s1) = (Inr result, w)" and
    rest: "fetch_features cfg oid name fms
             (rows @ [\<lparr>row_organism_id = oid, row_feature_id = feature_id fm,
                       row_source_id = source_id fm, fetched_object = fetched_obj result\<rparr>])
             (?s1\<lparr>world := w\<rparr>) = (Inr rows', s')"
    by (auto simp: Let_def split: prod.splits sum.splits)
  from Cons.IH[OF rest] show ?case by simp
qed

lemma fetch_sources_stdout:
  "fetch_sources P data oid name srcs rows s = (Inr rows', s') \<Longrightarrow>
   stdout s' = stdout s @
     map (announced name oid) (expected_keys (catalog_entries P data) (map fst srcs))"
proof (induction srcs arbitrary: rows s)
  case Nil
  then show ?case by (simp add: expected_keys_def)
next
  case (Cons src srcs)
  obtain sid cfg where src: "src = (sid, cfg)" by (cases src)
  from Cons.prems src obtain fms rows1 s1 where
    fms: "get_feature_metadata_by_source P data sid = Inr fms" and
    step: "fetch_features cfg oid name fms rows s = (Inr rows1, s1)" and
    rest: "fetch_sources P data oid name srcs rows1 s1 = (Inr rows', s')"
    by (auto split: sum.splits prod.splits)
  have f: "fms = filter (\<lambda>f. source_id f = sid) (catalog_entries P data)"
    using fms by (rule by_source_catalog)
  have "map (\<lambda>f. (name, oid, feature_id f, source_id f)) fms =
        map (announced name oid) (map (\<lambda>f. (sid, feature_id f)) fms)"
    unfolding f by (simp add: announced_def comp_def cong: map_cong)
  with fetch_features_stdout[OF step]
  have "stdout s1 = stdout s @ map (announced name oid) (map (\<lambda>f. (sid, feature_id f)) fms)"
    by simp
  with Cons.IH[OF rest] f src show ?case by (simp add: expected_keys_Cons)
qed

lemma fetch_stdout:
  assumes "fetch_features_for_organism P data reg oid name source_ids s = (Inr rows, s')"
  shows "stdout s' = stdout s @
     map (announced name oid)
       (expected_keys (catalog_entries P data) (processing_order reg source_ids))"
proof (cases source_ids)
  case None
  with assms have "fetch_sources P data oid name reg [] s = (Inr rows, s')"
    by (simp add: fetch_features_for_organism_def get_sources_to_process_None)
  from fetch_sources_stdout[OF this] None show ?thesis by (simp add: processing_order_def)
next
  case (Some sids)
  show ?thesis
  proof (cases "set sids \<subseteq> set (map fst reg)")
    case True
    with assms Some have
      "fetch_sources P data oid name (lookups reg (first_occurrences sids)) [] s = (Inr rows, s')"
      by (simp add: fetch_features_for_organism_def get_sources_to_process_valid)
    from fetch_sources_stdout[OF this] True Some show ?thesis
      by (simp add: processing_order_def keys_lookups)
  next
    case False
    with assms Some show ?thesis
      by (simp add: fetch_features_for_organism_def get_sources_to_process_invalid)
  qed
qed

lemma fetch_sources_total:
  assumes "get_all_feature_metadata P data = Inr features"
    and "\<And>k cfg fm w. (k, cfg) \<in> set srcs \<Longrightarrow> \<exists>r w'. func cfg oid name fm w = (Inr r, w')"
  shows "\<exists>rows' s'. fetch_sources P data oid name srcs rows s = (Inr rows', s')"
  using assms(2)
proof (induction srcs arbitrary: rows s)
  case Nil
  then show ?case by simp
next
  case (Cons src srcs)
  obtain sid cfg where src: "src = (sid, cfg)" by (cases src)
  have "\<And>fm w. \<exists>r w'. func cfg oid name fm w = (Inr r, w')"
    using Cons.prems[of sid cfg] src by simp
  from fetch_features_total[of cfg oid name, OF this]
  obtain rows1 s1 where step:
    "fetch_features cfg oid name (filter (\<lambda>f. source_id f = sid) features) rows s = (Inr rows1, s1)"
    by blast
  have "\<exists>rows' s'. fetch_sources P data oid name srcs rows1 s1 = (Inr rows', s')"
  proof (rule Cons.IH)
    fix k c fm w
    assume "(k, c) \<in> set srcs"
    then have "(k, c) \<in> set (src # srcs)" by simp
    from Cons.prems[OF this] show "\<exists>r w'. func c oid name fm w = (Inr r, w')" .
  qed
  with step src show ?case by (simp add: by_source_Inr[OF assms(1)])
qed

lemma parse_row_bad:
  "bad_record B row \<Longrightarrow> \<exists>msg. parse_row B i row = Inl (Exn ValueError msg)"
  by (auto simp: bad_record_def parse_row_def Let_def)

lemma parse_row_good:
  "\<not> bad_record B row \<Longrightarrow> \<exists>org. parse_row B i row = Inr org \<and> parsed_as B row org"
  by (auto simp: bad_record_def parse_row_def parsed_as_def Let_def)

lemma read_organisms_bad:
  "\<exists>row \<in> set rows. bad_record B row \<Longrightarrow>
   \<exists>msg. read_organisms B i rows acc = Inl (Exn ValueError msg)"
proof (induction rows arbitrary: i acc)
  case Nil
  then show ?case by simp
next
  case (Cons row rows)
  show ?case
  proof (cases "bad_record B row")
    case True
    from parse_row_bad[OF this, of i] show ?thesis by auto
  next
    case False
    from parse_row_good[OF this, of i] obtain org where "parse_row B i row = Inr org" by blast
    moreover from Cons.prems False have "\<exists>row \<in> set rows. bad_record B row" by auto
    from Cons.IH[OF this] have
      "\<exists>msg. read_organisms B (Suc i) rows (acc @ [org]) = Inl (Exn ValueError msg)" .
    ultimately show ?thesis by simp
  qed
qed

lemma read_organisms_good:
  "\<forall>row \<in> set rows. \<not> bad_record B row \<Longrightarrow>
   \<exists>orgs. read_organisms B i rows acc = Inr (acc @ orgs) \<and> list_all2 (parsed_as B) rows orgs"
proof (induction rows arbitrary: i acc)
  case Nil
  then show ?case by simp
next
  case (Cons row rows)
  from Cons.prems have "\<not> bad_record B row" by simp
  from parse_row_good[OF this, of i] obtain org where
    org: "parse_row B i row = Inr org" "parsed_as B row org" by blast
  from Cons.prems have "\<forall>row \<in> set rows. \<not> bad_record B row" by simp
  from Cons.IH[OF this, of "Suc i" "acc @ [org]"] obtain orgs where
    "read_organisms B (Suc i) rows (acc @ [org]) = Inr ((acc @ [org]) @ orgs)"
    "list_all2 (parsed_as B) rows orgs" by blast
  with org have "read_organisms B i (row # rows) acc = Inr (acc @ (org # orgs)) \<and>
      list_all2 (parsed_as B) (row # rows) (org # orgs)" by simp
  then show ?case by blast
qed

lemma after_failures_scripted:
  "\<forall>e \<in> set fails. isinstance e retry_on \<Longrightarrow>
   after_failures retry_on (\<lambda>n s. s) scripted n (length fails) (map Inl fails @ rest) = Some rest"
  by (induction fails arbitrary: n) auto

subsection \<open>The policy made by the decorator\<close>

lemma retry_with_backoff_fields:
  "stop_after_attempt (retry_with_backoff max_attempts min_wait max_wait retry_on sleep) = max_attempts"
  "retry_if_exception_type (retry_with_backoff max_attempts min_wait max_wait retry_on sleep) = retry_on"
  "wait_random_exponential (retry_with_backoff max_attempts min_wait max_wait retry_on sleep) =
     sleep min_wait max_wait"
  "reraise (retry_with_backoff max_attempts min_wait max_wait retry_on sleep)"
  by (simp_all add: retry_with_backoff_def)

lemma retry_with_backoff_reaches_last_attempt:
  assumes "1 \<le> max_attempts"
    and "after_failures retry_on (sleep min_wait max_wait) fn 1 (nat max_attempts - 1) s = Some s1"
  shows "retry_call (retry_with_backoff max_attempts min_wait max_wait retry_on sleep) fn 1 0 s =
         retry_call (retry_with_backoff max_attempts min_wait max_wait retry_on sleep) fn
           (nat max_attempts) (nat max_attempts - 1) s1"
proof -
  let ?R = "retry_with_backoff max_attempts min_wait max_wait retry_on sleep"
  from assms(1) have le: "int 1 + int (nat max_attempts - 1) \<le> stop_after_attempt ?R"
    unfolding retry_with_backoff_fields by simp
  from assms(2) have "after_failures (retry_if_exception_type ?R) (wait_random_exponential ?R) fn 1
      (nat max_attempts - 1) s = Some s1"
    unfolding retry_with_backoff_fields .
  from retry_call_after_failures[OF this le, of 0] assms(1) show ?thesis by simp
qed

lemma retry_with_backoff_succeeds:
  assumes "1 \<le> max_attempts"
    and "after_failures retry_on (sleep min_wait max_wait) fn 1 (nat max_attempts - 1) s = Some s1"
    and "fn s1 = (Inr v, s2)"
  shows "retrying (retry_with_backoff max_attempts min_wait max_wait retry_on sleep) fn s =
         (Inr v, nat max_attempts, s2)"
proof -
  let ?R = "retry_with_backoff max_attempts min_wait max_wait retry_on sleep"
  from assms(3) have "retry_call ?R fn (nat max_attempts) (nat max_attempts - 1) s1 =
      (Inr v, Suc (nat max_attempts - 1), s2)"
    by (rule retry_call_success)
  with retry_with_backoff_reaches_last_attempt[where sleep = sleep and min_wait = min_wait
      and max_wait = max_wait, OF assms(1) assms(2)] assms(1)
  show ?thesis by (simp add: retrying_def)
qed

lemma retry_with_backoff_reraises_last:
  assumes "1 \<le> max_attempts"
    and "after_failures retry_on (sleep min_wait max_wait) fn 1 (nat max_attempts - 1) s = Some s1"
    and "fn s1 = (Inl e, s2)"
  shows "retrying (retry_with_backoff max_attempts min_wait max_wait retry_on sleep) fn s =
         (Inl e, nat max_attempts, s2)"
proof -
  let ?R = "retry_with_backoff max_attempts min_wait max_wait retry_on sleep"
  from assms(1) have "stop_after_attempt ?R \<le> int (nat max_attempts)"
    unfolding retry_with_backoff_fields by simp
  moreover have "reraise ?R" by (rule retry_with_backoff_fields(4))
  ultimately have "retry_call ?R fn (nat max_attempts) (nat max_attempts - 1) s1 =
      (Inl e, Suc (nat max_attempts - 1), s2)"
    by (rule retry_call_exhausted[where fn = fn and s = s1, OF assms(3)])
  with retry_with_backoff_reaches_last_attempt[where sleep = sleep and min_wait = min_wait
      and max_wait = max_wait, OF assms(1) assms(2)] assms(1)
  show ?thesis by (simp add: retrying_def)
qed

lemma after_failures_script:
  assumes "\<forall>x \<in> set fails. isinstance x retry_on" and "length fails = k"
  shows "after_failures retry_on (no_sleep min_wait max_wait) scripted n k (map Inl fails @ rest) =
         Some rest"
proof -
  have eq: "no_sleep min_wait max_wait = (\<lambda>n s. s)" by (simp add: no_sleep_def fun_eq_iff)
  from after_failures_scripted[OF assms(1), of n rest] assms(2) show ?thesis
    unfolding eq by simp
qed

section \<open>C1: row order\<close>

text \<open>
  C1, as amended. Whenever \<open>fetch_features_for_organism\<close> returns rows, their
  (source, feature) keys are the catalog entries of each processed source in catalog
  declaration order, the sources taken in processing order: the registry's order when
  \<open>source_ids\<close> is omitted, and the order of first occurrence in \<open>source_ids\<close>
  when it is given.
\<close>

theorem rows_in_processing_order:
  assumes "fetch_features_for_organism P data (SOURCE_REGISTRY A) oid name source_ids s =
             (Inr rows, s')"
  shows "map row_key rows =
         expected_keys (catalog_entries P data)
           (processing_order (SOURCE_REGISTRY A) source_ids)"
  using assms by (rule fetch_rows_order)

text \<open>
  Witness for C1: the request \<open>[ncbi, protocols_io]\<close> on the example catalog returns
  three rows, and their keys are the expected ones.
\<close>

theorem rows_in_processing_order_witness:
  "fetch_features_for_organism text_pydantic example_data (SOURCE_REGISTRY stub_adapters)
     3077 ''Chlorella vulgaris'' (Some [''ncbi'', ''protocols_io'']) initial_io =
   (Inr [\<lparr>row_organism_id = 3077, row_feature_id = ''pubmed'', row_source_id = ''ncbi'',
           fetched_object = VDict []\<rparr>,
         \<lparr>row_organism_id = 3077, row_feature_id = ''gene'', row_source_id = ''ncbi'',
           fetched_object = VDict []\<rparr>,
         \<lparr>row_organism_id = 3077, row_feature_id = ''protocols'', row_source_id = ''protocols_io'',
           fetched_object = VDict []\<rparr>],
    \<lparr>world = (),
     stdout = [(''Chlorella vulgaris'', 3077, ''pubmed'', ''ncbi''),
               (''Chlorella vulgaris'', 3077, ''gene'', ''ncbi''),
               (''Chlorella vulgaris'', 3077, ''protocols'', ''protocols_io'')],
     csv_out = None\<rparr>)
   \<and> expected_keys (catalog_entries text_pydantic example_data)
         (processing_order (SOURCE_REGISTRY stub_adapters) (Some [''ncbi'', ''protocols_io''])) =
       [(''ncbi'', ''pubmed''), (''ncbi'', ''gene''), (''protocols_io'', ''protocols'')]"
  using rows_in_processing_order[OF example_fetch] example_fetch by (simp add: row_key_def)

text \<open>
  Counterexample to C1 as stated. The registry lists \<open>protocols_io\<close> before \<open>ncbi\<close>,
  yet for the request \<open>[ncbi, protocols_io]\<close> both \<open>ncbi\<close> rows come before the
  \<open>protocols_io\<close> row: the rows are not in source-registration order.
\<close>

theorem registry_order_counterexample:
  "fetch_features_for_organism text_pydantic example_data (SOURCE_REGISTRY stub_adapters)
     3077 ''Chlorella vulgaris'' (Some [''ncbi'', ''protocols_io'']) initial_io =
   (Inr [\<lparr>row_organism_id = 3077, row_feature_id = ''pubmed'', row_source_id = ''ncbi'',
           fetched_object = VDict []\<rparr>,
         \<lparr>row_organism_id = 3077, row_feature_id = ''gene'', row_source_id = ''ncbi'',
           fetched_object = VDict []\<rparr>,
         \<lparr>row_organism_id = 3077, row_feature_id = ''protocols'', row_source_id = ''protocols_io'',
           fetched_object = VDict []\<rparr>],
    \<lparr>world = (),
     stdout = [(''Chlorella vulgaris'', 3077, ''pubmed'', ''ncbi''),
               (''Chlorella vulgaris'', 3077, ''gene'', ''ncbi''),
               (''Chlorella vulgaris'', 3077, ''protocols'', ''protocols_io'')],
     csv_out = None\<rparr>)
   \<and> map fst (SOURCE_REGISTRY stub_adapters) =
       [''protocols_io'', ''ncbi'', ''nih_reporter'', ''atcc'', ''exa_answer'']
   \<and> [(''ncbi'', ''pubmed''), (''ncbi'', ''gene''), (''protocols_io'', ''protocols'')] \<noteq>
       expected_keys (catalog_entries text_pydantic example_data)
         (filter (\<lambda>k. k \<in> set [''ncbi'', ''protocols_io''])
            (map fst (SOURCE_REGISTRY stub_adapters)))"
  by (simp add: example_fetch registry_keys) code_simp

section \<open>C2: one row per catalog entry of the requested source\<close>

text \<open>
  C2. For a request naming the single source \<open>k\<close>: whenever the fetch returns rows,
  every row carries \<open>source_id = k\<close> and there are as many rows as the catalog has
  entries for \<open>k\<close>; when \<open>k\<close> is registered, the catalog loads and the adapter of
  \<open>k\<close> does not raise, the fetch does return rows; and when that adapter answers
  \<open>None\<close> every time, there still is one row per catalog entry, each holding the empty
  record.
\<close>

theorem single_source_rows:
  "(\<forall>rows st'. fetch_features_for_organism P data (SOURCE_REGISTRY A) oid name (Some [k]) st = (Inr rows, st')
       \<longrightarrow> list_all (\<lambda>r. row_source_id r = k) rows
         \<and> length rows = length (filter (\<lambda>f. source_id f = k) (catalog_entries P data)))
   \<and> (\<forall>cfg features. map_of (SOURCE_REGISTRY A) k = Some cfg
         \<longrightarrow> get_all_feature_metadata P data = Inr features
         \<longrightarrow> (\<forall>fm w. \<exists>r w'. func cfg oid name fm w = (Inr r, w'))
         \<longrightarrow> (\<exists>rows st'. fetch_features_for_organism P data (SOURCE_REGISTRY A) oid name (Some [k]) st = (Inr rows, st')))
   \<and> (\<forall>cfg features. map_of (SOURCE_REGISTRY A) k = Some cfg
         \<longrightarrow> get_all_feature_metadata P data = Inr features
         \<longrightarrow> (\<forall>fm w. func cfg oid name fm w = (Inr VNone, w))
         \<longrightarrow> fst (fetch_features_for_organism P data (SOURCE_REGISTRY A) oid name (Some [k]) st) =
               Inr (map (\<lambda>f. \<lparr>row_organism_id = oid, row_feature_id = feature_id f,
                                row_source_id = k, fetched_object = VDict []\<rparr>)
                      (filter (\<lambda>f. source_id f = k) features)))"
proof (intro conjI allI impI)
  fix rows st'
  assume "fetch_features_for_organism P data (SOURCE_REGISTRY A) oid name (Some [k]) st = (Inr rows, st')"
  from fetch_rows_order[OF this]
  have keys: "map row_key rows =
      map (\<lambda>f. (k, feature_id f)) (filter (\<lambda>f. source_id f = k) (catalog_entries P data))"
    by (simp add: processing_order_def expected_keys_single)
  have "map row_source_id rows = map fst (map row_key rows)"
    by (simp add: row_key_def comp_def)
  also have "\<dots> = map (\<lambda>f. k) (filter (\<lambda>f. source_id f = k) (catalog_entries P data))"
    by (simp add: keys comp_def)
  finally have src: "map row_source_id rows =
      map (\<lambda>f. k) (filter (\<lambda>f. source_id f = k) (catalog_entries P data))" .
  have "\<forall>x \<in> set (map row_source_id rows). x = k" unfolding src by auto
  then show "list_all (\<lambda>r. row_source_id r = k) rows" by (simp add: list_all_iff)
  from keys show "length rows = length (filter (\<lambda>f. source_id f = k) (catalog_entries P data))"
    by (metis length_map)
next
  fix cfg features
  assume reg: "map_of (SOURCE_REGISTRY A) k = Some cfg"
    and cat: "get_all_feature_metadata P data = Inr features"
    and ok: "\<forall>fm w. \<exists>r w'. func cfg oid name fm w = (Inr r, w')"
  from ok obtain rows' s' where
    "fetch_features cfg oid name (filter (\<lambda>f. source_id f = k) features) [] st = (Inr rows', s')"
    using fetch_features_total[of cfg oid name] by blast
  then show "\<exists>rows st'. fetch_features_for_organism P data (SOURCE_REGISTRY A) oid name (Some [k]) st = (Inr rows, st')"
    by (simp add: fetch_single_source[OF reg] by_source_Inr[OF cat])
next
  fix cfg features
  assume reg: "map_of (SOURCE_REGISTRY A) k = Some cfg"
    and cat: "get_all_feature_metadata P data = Inr features"
    and none: "\<forall>fm w. func cfg oid name fm w = (Inr VNone, w)"
  have "map (\<lambda>f. \<lparr>row_organism_id = oid, row_feature_id = feature_id f,
                   row_source_id = source_id f, fetched_object = VDict []\<rparr>)
          (filter (\<lambda>f. source_id f = k) features) =
        map (\<lambda>f. \<lparr>row_organism_id = oid, row_feature_id = feature_id f,
                   row_source_id = k, fetched_object = VDict []\<rparr>)
          (filter (\<lambda>f. source_id f = k) features)"
    by (rule map_cong) auto
  then show "fst (fetch_features_for_organism P data (SOURCE_REGISTRY A) oid name (Some [k]) st) =
               Inr (map (\<lambda>f. \<lparr>row_organism_id = oid, row_feature_id = feature_id f,
                                row_source_id = k, fetched_object = VDict []\<rparr>)
                      (filter (\<lambda>f. source_id f = k) features))"
    using none
    by (simp add: fetch_single_source[OF reg] by_source_Inr[OF cat] fetch_features_none)
qed

text \<open>
  Witness for C2: the spec's example, source \<open>ncbi\<close> for Chlorella vulgaris, on the
  example catalog (two \<open>ncbi\<close> entries) with an adapter that always answers \<open>None\<close>.
\<close>

theorem single_source_rows_witness:
  "map_of (SOURCE_REGISTRY stub_adapters) ''ncbi'' = Some \<lparr>func = none_adapter\<rparr>
   \<and> fetch_features_for_organism text_pydantic example_data (SOURCE_REGISTRY stub_adapters)
       3077 ''Chlorella vulgaris'' (Some [''ncbi'']) initial_io =
     (Inr [\<lparr>row_organism_id = 3077, row_feature_id = ''pubmed'', row_source_id = ''ncbi'',
             fetched_object = VDict []\<rparr>,
           \<lparr>row_organism_id = 3077, row_feature_id = ''gene'', row_source_id = ''ncbi'',
             fetched_object = VDict []\<rparr>],
      \<lparr>world = (),
       stdout = [(''Chlorella vulgaris'', 3077, ''pubmed'', ''ncbi''),
                 (''Chlorella vulgaris'', 3077, ''gene'', ''ncbi'')],
       csv_out = None\<rparr>)
   \<and> length (filter (\<lambda>f. source_id f = ''ncbi'') (catalog_entries text_pydantic example_data)) = 2
   \<and> fst (fetch_features_for_organism text_pydantic example_data (SOURCE_REGISTRY stub_adapters)
            3077 ''Chlorella vulgaris'' (Some [''ncbi'']) initial_io) =
       Inr (map (\<lambda>f. \<lparr>row_organism_id = 3077, row_feature_id = feature_id f,
                        row_source_id = ''ncbi'', fetched_object = VDict []\<rparr>)
              (filter (\<lambda>f. source_id f = ''ncbi'') (catalog_entries text_pydantic example_data)))"
proof -
  note inst = single_source_rows[of text_pydantic example_data stub_adapters 3077
      "''Chlorella vulgaris''" "''ncbi''" initial_io]
  have none: "\<forall>fm w. func \<lparr>func = none_adapter\<rparr> 3077 ''Chlorella vulgaris'' fm w = (Inr VNone, w)"
    by (simp add: none_adapter_def)
  from inst example_fetch_ncbi
  have count: "length [\<lparr>row_organism_id = 3077, row_feature_id = ''pubmed'', row_source_id = ''ncbi'',
           fetched_object = VDict []\<rparr>,
         \<lparr>row_organism_id = 3077, row_feature_id = ''gene'', row_source_id = ''ncbi'',
           fetched_object = VDict []\<rparr>] =
        length (filter (\<lambda>f. source_id f = ''ncbi'') (catalog_entries text_pydantic example_data))"
    by blast
  from inst example_ncbi_registered example_catalog none
  have "fst (fetch_features_for_organism text_pydantic example_data (SOURCE_REGISTRY stub_adapters)
            3077 ''Chlorella vulgaris'' (Some [''ncbi'']) initial_io) =
       Inr (map (\<lambda>f. \<lparr>row_organism_id = 3077, row_feature_id = feature_id f,
                        row_source_id = ''ncbi'', fetched_object = VDict []\<rparr>)
              (filter (\<lambda>f. source_id f = ''ncbi'')
                 [\<lparr>feature_id = ''pubmed'', source_id = ''ncbi'', display_name = ''pubmed'',
            category = ''literature'', description = ''PubMed records'',
            organism_query_type = None, answer_enum = None, query = None, max_products = None,
            feature_type = None\<rparr>,
          \<lparr>feature_id = ''protocols'', source_id = ''protocols_io'', display_name = ''protocols'',
            category = ''literature'', description = ''Public protocols'',
            organism_query_type = None, answer_enum = None, query = None, max_products = None,
            feature_type = None\<rparr>,
          \<lparr>feature_id = ''gene'', source_id = ''ncbi'', display_name = ''gene'',
            category = ''literature'', description = ''Gene records'',
            organism_query_type = None, answer_enum = None, query = None, max_products = None,
            feature_type = None\<rparr>]))"
    by blast
  then have third: "fst (fetch_features_for_organism text_pydantic example_data (SOURCE_REGISTRY stub_adapters)
            3077 ''Chlorella vulgaris'' (Some [''ncbi'']) initial_io) =
       Inr (map (\<lambda>f. \<lparr>row_organism_id = 3077, row_feature_id = feature_id f,
                        row_source_id = ''ncbi'', fetched_object = VDict []\<rparr>)
              (filter (\<lambda>f. source_id f = ''ncbi'') (catalog_entries text_pydantic example_data)))"
    by (simp only: catalog_entries_Inr[OF example_catalog])
  from count have "length (filter (\<lambda>f. source_id f = ''ncbi'') (catalog_entries text_pydantic example_data)) = 2"
    by simp
  with third example_fetch_ncbi example_ncbi_registered show ?thesis by blast
qed

section \<open>C3: unknown source ids\<close>

text \<open>
  C3. If \<open>source_ids\<close> holds an id that is not a key of the source registry, the fetch
  raises \<open>ValueError\<close> with the message
  \<open>Invalid source IDs: <unknown ids>. Available sources: <registry keys>\<close>, which
  contains every unknown id and every registered source, and the state is returned as
  it was (nothing was announced on stdout and no adapter touched the world). If every
  id is registered, source selection succeeds, selects exactly the requested sources,
  each once and with the registry's own configuration, and the fetch is the loop over
  them: whenever it returns, the rows are those of the catalog entries of the
  requested sources and of no other, stdout has gained one line for each of them (one
  adapter invocation each), and it does return when the catalog loads and the adapters
  of the requested sources do not raise.
\<close>

theorem unknown_source_ids_rejected:
  "(\<not> set sids \<subseteq> set (map fst (SOURCE_REGISTRY A)) \<longrightarrow>
      (\<exists>msg. fetch_features_for_organism P data (SOURCE_REGISTRY A) oid name (Some sids) s =
                (Inl (Exn ValueError msg), s)
            \<and> msg = ''Invalid source IDs: '' @
                    join '', '' (filter (\<lambda>sid. sid \<notin> set (map fst (SOURCE_REGISTRY A))) sids) @
                    ''. Available sources: protocols_io, ncbi, nih_reporter, atcc, exa_answer''
            \<and> (\<forall>sid \<in> set sids. sid \<notin> set (map fst (SOURCE_REGISTRY A)) \<longrightarrow> sublist sid msg)
            \<and> (\<forall>k \<in> set (map fst (SOURCE_REGISTRY A)). sublist k msg)))
   \<and> (set sids \<subseteq> set (map fst (SOURCE_REGISTRY A)) \<longrightarrow>
      (\<exists>srcs. get_sources_to_process (SOURCE_REGISTRY A) (Some sids) = Inr srcs
            \<and> set (map fst srcs) = set sids
            \<and> distinct (map fst srcs)
            \<and> (\<forall>(k, c) \<in> set srcs. map_of (SOURCE_REGISTRY A) k = Some c)
            \<and> fetch_features_for_organism P data (SOURCE_REGISTRY A) oid name (Some sids) s =
                fetch_sources P data oid name srcs [] s)
      \<and> (\<forall>rows s'.
            fetch_features_for_organism P data (SOURCE_REGISTRY A) oid name (Some sids) s =
              (Inr rows, s') \<longrightarrow>
            map row_key rows =
              expected_keys (catalog_entries P data) (first_occurrences sids)
            \<and> stdout s' = stdout s @
                map (announced name oid)
                  (expected_keys (catalog_entries P data) (first_occurrences sids)))
      \<and> (\<forall>features.
            get_all_feature_metadata P data = Inr features
            \<and> (\<forall>k cfg fm w. k \<in> set sids \<and> map_of (SOURCE_REGISTRY A) k = Some cfg \<longrightarrow>
                   (\<exists>r w'. func cfg oid name fm w = (Inr r, w'))) \<longrightarrow>
            (\<exists>rows s'.
               fetch_features_for_organism P data (SOURCE_REGISTRY A) oid name (Some sids) s =
                 (Inr rows, s'))))"
proof (intro conjI impI allI)
  let ?reg = "SOURCE_REGISTRY A"
  let ?invalid = "filter (\<lambda>sid. sid \<notin> set (map fst ?reg)) sids"
  let ?avail = "''protocols_io, ncbi, nih_reporter, atcc, exa_answer''"
  let ?msg = "''Invalid source IDs: '' @ join '', '' ?invalid @ ''. Available sources: '' @ ?avail"
  assume bad: "\<not> set sids \<subseteq> set (map fst ?reg)"
  have avail: "join '', '' (map fst ?reg) = ?avail" by (simp add: registry_keys)
  have raised: "fetch_features_for_organism P data ?reg oid name (Some sids) s =
      (Inl (Exn ValueError ?msg), s)"
    using get_sources_to_process_invalid[OF bad] avail
    by (simp add: fetch_features_for_organism_def)
  have named: "\<forall>sid \<in> set sids. sid \<notin> set (map fst ?reg) \<longrightarrow> sublist sid ?msg"
  proof (intro ballI impI)
    fix sid assume "sid \<in> set sids" "sid \<notin> set (map fst ?reg)"
    then have "sid \<in> set ?invalid" by simp
    then have "sublist sid (join '', '' ?invalid)" by (rule join_sublist)
    then show "sublist sid ?msg" by (rule sublist_in_context)
  qed
  have listed: "\<forall>k \<in> set (map fst ?reg). sublist k ?msg"
  proof
    fix k assume "k \<in> set (map fst ?reg)"
    then have "sublist k (join '', '' (map fst ?reg))" by (rule join_sublist)
    then have "sublist k ?avail" using avail by simp
    then have "sublist k ((''Invalid source IDs: '' @ join '', '' ?invalid @ ''. Available sources: '') @ ?avail @ [])"
      by (rule sublist_in_context)
    then show "sublist k ?msg" by simp
  qed
  from raised named listed
  show "\<exists>msg. fetch_features_for_organism P data ?reg oid name (Some sids) s =
                (Inl (Exn ValueError msg), s)
            \<and> msg = ''Invalid source IDs: '' @ join '', '' ?invalid @
                    ''. Available sources: protocols_io, ncbi, nih_reporter, atcc, exa_answer''
            \<and> (\<forall>sid \<in> set sids. sid \<notin> set (map fst ?reg) \<longrightarrow> sublist sid msg)
            \<and> (\<forall>k \<in> set (map fst ?reg). sublist k msg)"
    by (intro exI[of _ ?msg]) simp
next
  let ?reg = "SOURCE_REGISTRY A"
  let ?srcs = "lookups ?reg (first_occurrences sids)"
  assume ok: "set sids \<subseteq> set (map fst ?reg)"
  have sel: "get_sources_to_process ?reg (Some sids) = Inr ?srcs"
    using ok by (rule get_sources_to_process_valid)
  have keys: "map fst ?srcs = first_occurrences sids" using ok by (rule lookups_distinct_keys)
  have "set (map fst ?srcs) = set sids" unfolding keys by simp
  moreover have "distinct (map fst ?srcs)" unfolding keys by simp
  moreover have "\<forall>(k, c) \<in> set ?srcs. map_of ?reg k = Some c"
    by (auto dest: lookups_in_registry)
  moreover have "fetch_features_for_organism P data ?reg oid name (Some sids) s =
                fetch_sources P data oid name ?srcs [] s"
    by (simp add: fetch_features_for_organism_def sel)
  ultimately show "\<exists>srcs. get_sources_to_process ?reg (Some sids) = Inr srcs
            \<and> set (map fst srcs) = set sids
            \<and> distinct (map fst srcs)
            \<and> (\<forall>(k, c) \<in> set srcs. map_of ?reg k = Some c)
            \<and> fetch_features_for_organism P data ?reg oid name (Some sids) s =
                fetch_sources P data oid name srcs [] s"
    using sel by blast
next
  fix rows s'
  assume "set sids \<subseteq> set (map fst (SOURCE_REGISTRY A))"
    and ret: "fetch_features_for_organism P data (SOURCE_REGISTRY A) oid name (Some sids) s =
              (Inr rows, s')"
  from fetch_rows_order[OF ret]
  show "map row_key rows = expected_keys (catalog_entries P data) (first_occurrences sids)"
    by (simp add: processing_order_def)
  from fetch_stdout[OF ret]
  show "stdout s' = stdout s @
          map (announced name oid)
            (expected_keys (catalog_entries P data) (first_occurrences sids))"
    by (simp add: processing_order_def)
next
  fix features
  let ?reg = "SOURCE_REGISTRY A"
  assume ok: "set sids \<subseteq> set (map fst ?reg)"
    and h: "get_all_feature_metadata P data = Inr features
            \<and> (\<forall>k cfg fm w. k \<in> set sids \<and> map_of ?reg k = Some cfg \<longrightarrow>
                   (\<exists>r w'. func cfg oid name fm w = (Inr r, w')))"
  have sel: "get_sources_to_process ?reg (Some sids) = Inr (lookups ?reg (first_occurrences sids))"
    using ok by (rule get_sources_to_process_valid)
  have "\<exists>rows' s'. fetch_sources P data oid name (lookups ?reg (first_occurrences sids)) [] s =
          (Inr rows', s')"
  proof (rule fetch_sources_total)
    show "get_all_feature_metadata P data = Inr features" using h by blast
    fix k cfg fm w
    assume mem: "(k, cfg) \<in> set (lookups ?reg (first_occurrences sids))"
    then have "map_of ?reg k = Some cfg" by (rule lookups_in_registry)
    moreover have "k \<in> set sids"
    proof -
      from mem have "k \<in> set (map fst (lookups ?reg (first_occurrences sids)))" by force
      then show ?thesis by (simp add: lookups_distinct_keys[OF ok])
    qed
    ultimately show "\<exists>r w'. func cfg oid name fm w = (Inr r, w')" using h by blast
  qed
  then show "\<exists>rows s'.
      fetch_features_for_organism P data ?reg oid name (Some sids) s = (Inr rows, s')"
    by (simp add: fetch_features_for_organism_def sel)
qed

text \<open>
  Witness for C3: the spec's example \<open>not_a_real_source\<close> is rejected with the full
  message, and the registered request \<open>[ncbi]\<close> is accepted and returns the two
  \<open>ncbi\<close> rows after two announced fetches.
\<close>

theorem unknown_source_ids_rejected_witness:
  "\<not> set [''not_a_real_source''] \<subseteq> set (map fst (SOURCE_REGISTRY stub_adapters))
   \<and> fetch_features_for_organism text_pydantic example_data (SOURCE_REGISTRY stub_adapters)
       3077 ''Chlorella vulgaris'' (Some [''not_a_real_source'']) initial_io =
     (Inl (Exn ValueError
        ''Invalid source IDs: not_a_real_source. Available sources: protocols_io, ncbi, nih_reporter, atcc, exa_answer''),
      initial_io)
   \<and> sublist ''not_a_real_source''
        ''Invalid source IDs: not_a_real_source. Available sources: protocols_io, ncbi, nih_reporter, atcc, exa_answer''
   \<and> set [''ncbi''] \<subseteq> set (map fst (SOURCE_REGISTRY stub_adapters))
   \<and> (\<exists>srcs. get_sources_to_process (SOURCE_REGISTRY stub_adapters) (Some [''ncbi'']) = Inr srcs
          \<and> set (map fst srcs) = set [''ncbi''])
   \<and> expected_keys (catalog_entries text_pydantic example_data) (first_occurrences [''ncbi'']) =
       [(''ncbi'', ''pubmed''), (''ncbi'', ''gene'')]
   \<and> stdout initial_io @
       map (announced ''Chlorella vulgaris'' 3077)
         (expected_keys (catalog_entries text_pydantic example_data) (first_occurrences [''ncbi''])) =
       [(''Chlorella vulgaris'', 3077, ''pubmed'', ''ncbi''),
        (''Chlorella vulgaris'', 3077, ''gene'', ''ncbi'')]
   \<and> fetch_features_for_organism text_pydantic example_data (SOURCE_REGISTRY stub_adapters)
       3077 ''Chlorella vulgaris'' (Some [''ncbi'']) initial_io =
     (Inr [\<lparr>row_organism_id = 3077, row_feature_id = ''pubmed'', row_source_id = ''ncbi'',
             fetched_object = VDict []\<rparr>,
           \<lparr>row_organism_id = 3077, row_feature_id = ''gene'', row_source_id = ''ncbi'',
             fetched_object = VDict []\<rparr>],
      \<lparr>world = (),
       stdout = [(''Chlorella vulgaris'', 3077, ''pubmed'', ''ncbi''),
                 (''Chlorella vulgaris'', 3077, ''gene'', ''ncbi'')],
       csv_out = None\<rparr>)"
proof -
  have bad: "\<not> set [''not_a_real_source''] \<subseteq> set (map fst (SOURCE_REGISTRY stub_adapters))"
    by (simp add: registry_keys)
  have ok: "set [''ncbi''] \<subseteq> set (map fst (SOURCE_REGISTRY stub_adapters))"
    by (simp add: registry_keys)
  have inv: "filter (\<lambda>sid. sid \<notin> set (map fst (SOURCE_REGISTRY stub_adapters))) [''not_a_real_source'']
             = [''not_a_real_source'']"
    by (simp add: registry_keys)
  from unknown_source_ids_rejected[of "[''not_a_real_source'']" stub_adapters text_pydantic
      example_data 3077 "''Chlorella vulgaris''" initial_io] bad
  obtain msg where
    raised: "fetch_features_for_organism text_pydantic example_data (SOURCE_REGISTRY stub_adapters)
       3077 ''Chlorella vulgaris'' (Some [''not_a_real_source'']) initial_io =
       (Inl (Exn ValueError msg), initial_io)" and
    msg: "msg = ''Invalid source IDs: '' @
                    join '', '' (filter (\<lambda>sid. sid \<notin> set (map fst (SOURCE_REGISTRY stub_adapters)))
                                   [''not_a_real_source'']) @
                    ''. Available sources: protocols_io, ncbi, nih_reporter, atcc, exa_answer''" and
    named: "\<forall>sid \<in> set [''not_a_real_source''].
              sid \<notin> set (map fst (SOURCE_REGISTRY stub_adapters)) \<longrightarrow> sublist sid msg"
    by blast
  have msg': "msg = ''Invalid source IDs: not_a_real_source. Available sources: protocols_io, ncbi, nih_reporter, atcc, exa_answer''"
    unfolding msg inv by simp
  from named bad have sub: "sublist ''not_a_real_source'' msg" by simp
  from unknown_source_ids_rejected[of "[''ncbi'']" stub_adapters text_pydantic
      example_data 3077 "''Chlorella vulgaris''" initial_io] ok
  have sel: "\<exists>srcs. get_sources_to_process (SOURCE_REGISTRY stub_adapters) (Some [''ncbi'']) = Inr srcs
          \<and> set (map fst srcs) = set [''ncbi'']"
    by blast
  from unknown_source_ids_rejected[of "[''ncbi'']" stub_adapters text_pydantic
      example_data 3077 "''Chlorella vulgaris''" initial_io] ok example_fetch_ncbi
  have "map row_key
          [\<lparr>row_organism_id = 3077, row_feature_id = ''pubmed'', row_source_id = ''ncbi'',
             fetched_object = VDict []\<rparr>,
           \<lparr>row_organism_id = 3077, row_feature_id = ''gene'', row_source_id = ''ncbi'',
             fetched_object = VDict []\<rparr>] =
          expected_keys (catalog_entries text_pydantic example_data) (first_occurrences [''ncbi''])
        \<and> stdout \<lparr>world = (),
             stdout = [(''Chlorella vulgaris'', 3077, ''pubmed'', ''ncbi''),
                       (''Chlorella vulgaris'', 3077, ''gene'', ''ncbi'')],
             csv_out = None\<rparr> =
          stdout initial_io @
            map (announced ''Chlorella vulgaris'' 3077)
              (expected_keys (catalog_entries text_pydantic example_data)
                 (first_occurrences [''ncbi'']))"
    by blast
  then have keys: "expected_keys (catalog_entries text_pydantic example_data)
        (first_occurrences [''ncbi'']) = [(''ncbi'', ''pubmed''), (''ncbi'', ''gene'')]"
    and out: "stdout initial_io @
       map (announced ''Chlorella vulgaris'' 3077)
         (expected_keys (catalog_entries text_pydantic example_data) (first_occurrences [''ncbi''])) =
       [(''Chlorella vulgaris'', 3077, ''pubmed'', ''ncbi''),
        (''Chlorella vulgaris'', 3077, ''gene'', ''ncbi'')]"
    by (simp_all add: row_key_def)
  from raised have raised': "fetch_features_for_organism text_pydantic example_data
      (SOURCE_REGISTRY stub_adapters) 3077 ''Chlorella vulgaris'' (Some [''not_a_real_source''])
      initial_io =
     (Inl (Exn ValueError
        ''Invalid source IDs: not_a_real_source. Available sources: protocols_io, ncbi, nih_reporter, atcc, exa_answer''),
      initial_io)"
    unfolding msg' .
  from sub have sub': "sublist ''not_a_real_source''
        ''Invalid source IDs: not_a_real_source. Available sources: protocols_io, ncbi, nih_reporter, atcc, exa_answer''"
    unfolding msg' .
  show ?thesis
    by (intro conjI bad ok raised' sub' sel keys out example_fetch_ncbi)
qed

section \<open>C4: the retry policy\<close>

text \<open>
  C4. Let the policy be the one made by \<open>retry_with_backoff\<close> from \<open>max_attempts \<ge> 1\<close>,
  the classes \<open>retry_on\<close> and the backoff sleep. An operation that fails
  \<open>max_attempts - 1\<close> times, each time with an instance of a class of \<open>retry_on\<close>, and
  then succeeds returns the success value after exactly \<open>max_attempts\<close> invocations;
  this is stated for any operation and state, and again for the operation that plays a
  script of such failures. An operation whose failure is not an instance of a class of
  \<open>retry_on\<close> is invoked once and that failure is the result, whatever \<open>max_attempts\<close>
  is. An operation whose first \<open>max_attempts - 1\<close> failures are instances of
  \<open>retry_on\<close> and which fails again at attempt \<open>max_attempts\<close> ends with that last
  failure itself, not wrapped, after exactly \<open>max_attempts\<close> invocations. No operation
  is invoked more than \<open>max 1 max_attempts\<close> times.
\<close>

theorem retry_policy:
  "(1 \<le> max_attempts
      \<and> after_failures retry_on (sleep min_wait max_wait) fn 1 (nat max_attempts - 1) s = Some s1
      \<and> fn s1 = (Inr v, s2) \<longrightarrow>
      retrying (retry_with_backoff max_attempts min_wait max_wait retry_on sleep) fn s =
        (Inr v, nat max_attempts, s2))
   \<and> (fn s = (Inl e, s') \<and> \<not> isinstance e retry_on \<longrightarrow>
      retrying (retry_with_backoff max_attempts min_wait max_wait retry_on sleep) fn s =
        (Inl e, 1, s'))
   \<and> (1 \<le> max_attempts
      \<and> after_failures retry_on (sleep min_wait max_wait) fn 1 (nat max_attempts - 1) s = Some s1
      \<and> fn s1 = (Inl e, s2) \<longrightarrow>
      retrying (retry_with_backoff max_attempts min_wait max_wait retry_on sleep) fn s =
        (Inl e, nat max_attempts, s2))
   \<and> fst (snd (retrying (retry_with_backoff max_attempts min_wait max_wait retry_on sleep) fn s))
        \<le> max 1 (nat max_attempts)
   \<and> (1 \<le> max_attempts \<and> (\<forall>x \<in> set fails. isinstance x retry_on)
        \<and> length fails = nat max_attempts - 1 \<longrightarrow>
      retrying (retry_with_backoff max_attempts min_wait max_wait retry_on no_sleep) scripted
        (map Inl fails @ Inr y # later) = (Inr y, nat max_attempts, later)
      \<and> retrying (retry_with_backoff max_attempts min_wait max_wait retry_on no_sleep) scripted
        (map Inl fails @ Inl e # later) = (Inl e, nat max_attempts, later))"
proof -
  let ?R = "retry_with_backoff max_attempts min_wait max_wait retry_on sleep"
  have a: "retrying ?R fn s = (Inr v, nat max_attempts, s2)"
    if "1 \<le> max_attempts
        \<and> after_failures retry_on (sleep min_wait max_wait) fn 1 (nat max_attempts - 1) s = Some s1
        \<and> fn s1 = (Inr v, s2)"
  proof -
    from that have h1: "1 \<le> max_attempts"
      and h2: "after_failures retry_on (sleep min_wait max_wait) fn 1 (nat max_attempts - 1) s = Some s1"
      and h3: "fn s1 = (Inr v, s2)" by simp_all
    show ?thesis
      by (rule retry_with_backoff_succeeds[where sleep = sleep and min_wait = min_wait
            and max_wait = max_wait and fn = fn and s = s and ?s1.0 = s1, OF h1 h2 h3])
  qed
  have b: "retrying ?R fn s = (Inl e, 1, s')" if "fn s = (Inl e, s') \<and> \<not> isinstance e retry_on"
    using that by (simp add: retrying_def retry_call_not_retryable retry_with_backoff_fields)
  have c: "retrying ?R fn s = (Inl e, nat max_attempts, s2)"
    if "1 \<le> max_attempts
        \<and> after_failures retry_on (sleep min_wait max_wait) fn 1 (nat max_attempts - 1) s = Some s1
        \<and> fn s1 = (Inl e, s2)"
  proof -
    from that have h1: "1 \<le> max_attempts"
      and h2: "after_failures retry_on (sleep min_wait max_wait) fn 1 (nat max_attempts - 1) s = Some s1"
      and h3: "fn s1 = (Inl e, s2)" by simp_all
    show ?thesis
      by (rule retry_with_backoff_reraises_last[where sleep = sleep and min_wait = min_wait
            and max_wait = max_wait and fn = fn and s = s and ?s1.0 = s1, OF h1 h2 h3])
  qed
  have d: "fst (snd (retrying ?R fn s)) \<le> max 1 (nat max_attempts)"
    using retry_call_bounded[of ?R fn 1 0 s] unfolding retrying_def retry_with_backoff_fields by simp
  have f: "retrying (retry_with_backoff max_attempts min_wait max_wait retry_on no_sleep) scripted
        (map Inl fails @ Inr y # later) = (Inr y, nat max_attempts, later)
      \<and> retrying (retry_with_backoff max_attempts min_wait max_wait retry_on no_sleep) scripted
        (map Inl fails @ Inl e # later) = (Inl e, nat max_attempts, later)"
    if h: "1 \<le> max_attempts \<and> (\<forall>x \<in> set fails. isinstance x retry_on)
        \<and> length fails = nat max_attempts - 1"
  proof
    from h have one: "1 \<le> max_attempts" and all: "\<forall>x \<in> set fails. isinstance x retry_on"
      and len: "length fails = nat max_attempts - 1" by simp_all
    have g1: "scripted (Inr y # later) = (Inr y, later)" by simp
    have g2: "scripted (Inl e # later) = (Inl e, later)" by simp
    show "retrying (retry_with_backoff max_attempts min_wait max_wait retry_on no_sleep) scripted
        (map Inl fails @ Inr y # later) = (Inr y, nat max_attempts, later)"
      by (rule retry_with_backoff_succeeds[where sleep = no_sleep and min_wait = min_wait
            and max_wait = max_wait and fn = scripted and ?s1.0 = "Inr y # later",
            OF one after_failures_script[OF all len] g1])
    show "retrying (retry_with_backoff max_attempts min_wait max_wait retry_on no_sleep) scripted
        (map Inl fails @ Inl e # later) = (Inl e, nat max_attempts, later)"
      by (rule retry_with_backoff_reraises_last[where sleep = no_sleep and min_wait = min_wait
            and max_wait = max_wait and fn = scripted and ?s1.0 = "Inl e # later",
            OF one after_failures_script[OF all len] g2])
  qed
  show ?thesis
    apply (intro conjI impI)
         apply (erule a)
        apply (erule b)
       apply (erule c)
      apply (rule d)
     apply (erule f[THEN conjunct1])
    apply (erule f[THEN conjunct2])
    done
qed

lemma example_two_failures:
  "after_failures [RequestException, HTTPError] (no_sleep 1 60) scripted 1 2
     [Inl (Exn HTTPError ''503''), Inl (Exn Timeout ''timed out''), Inr ''ok''] =
   Some [Inr ''ok'']"
  by code_simp

lemma example_not_retryable:
  "\<not> isinstance (Exn ValueError ''bad request'') [RequestException, HTTPError]"
  by code_simp

lemma example_retryable:
  "\<forall>x \<in> set [Exn HTTPError ''503'', Exn Timeout ''timed out''].
     isinstance x [RequestException, HTTPError]"
  by (simp add: isinstance_def)

text \<open>
  Witness for C4: with \<open>max_attempts = 3\<close> and the default retryable classes, an
  operation that answers HTTP 503, then times out, then succeeds returns \<open>ok\<close> after
  three invocations; one that raises \<open>ValueError\<close> is invoked once; one that fails
  three times with retryable errors ends with the third error after three invocations.
\<close>

theorem retry_policy_witness:
  "(1::int) \<le> 3
   \<and> after_failures [RequestException, HTTPError] (no_sleep 1 60) scripted 1 2
       [Inl (Exn HTTPError ''503''), Inl (Exn Timeout ''timed out''), Inr ''ok''] = Some [Inr ''ok'']
   \<and> retrying example_retrying scripted
       [Inl (Exn HTTPError ''503''), Inl (Exn Timeout ''timed out''), Inr ''ok''] =
       (Inr ''ok'', 3, [])
   \<and> \<not> isinstance (Exn ValueError ''bad request'') [RequestException, HTTPError]
   \<and> retrying example_retrying scripted [Inl (Exn ValueError ''bad request''), Inr ''ok''] =
       (Inl (Exn ValueError ''bad request''), 1, [Inr ''ok''])
   \<and> length [Exn HTTPError ''503'', Exn Timeout ''timed out''] = nat 3 - 1
   \<and> retrying example_retrying scripted
       [Inl (Exn HTTPError ''503''), Inl (Exn Timeout ''timed out''),
        Inl (Exn HTTPError ''502''), Inr ''ok''] =
       (Inl (Exn HTTPError ''502''), 3, [Inr ''ok''])"
proof -
  note R = example_retrying_def
  have three: "nat (3::int) - 1 = 2" "nat (3::int) = 3" by simp_all
  have len: "length [Exn HTTPError ''503'', Exn Timeout ''timed out''] = nat 3 - 1" by simp
  note inst1 = retry_policy[where max_attempts = 3 and retry_on = "[RequestException, HTTPError]"
      and sleep = no_sleep and min_wait = 1 and max_wait = 60 and fn = scripted
      and s = "[Inl (Exn HTTPError ''503''), Inl (Exn Timeout ''timed out''), Inr ''ok'']"
      and ?s1.0 = "[Inr ''ok'']" and v = "''ok''" and ?s2.0 = "[]"
      and e = "Exn HTTPError ''502''" and s' = "[]"
      and fails = "[Exn HTTPError ''503'', Exn Timeout ''timed out'']"
      and y = "''ok''" and later = "[Inr ''ok'']"]
  have hyp1: "(1::int) \<le> 3
      \<and> after_failures [RequestException, HTTPError] (no_sleep 1 60) scripted 1 (nat 3 - 1)
          [Inl (Exn HTTPError ''503''), Inl (Exn Timeout ''timed out''), Inr ''ok''] = Some [Inr ''ok'']
      \<and> scripted [Inr ''ok''] = (Inr ''ok'', [])"
    using example_two_failures unfolding three by simp
  from inst1[THEN conjunct1, THEN mp, OF hyp1]
  have ok: "retrying example_retrying scripted
       [Inl (Exn HTTPError ''503''), Inl (Exn Timeout ''timed out''), Inr ''ok''] =
       (Inr ''ok'', 3, [])"
    unfolding R[symmetric] three .
  note scripted_part = inst1[THEN conjunct2, THEN conjunct2, THEN conjunct2, THEN conjunct2]
  have hyp: "(1::int) \<le> 3
      \<and> (\<forall>x \<in> set [Exn HTTPError ''503'', Exn Timeout ''timed out''].
            isinstance x [RequestException, HTTPError])
      \<and> length [Exn HTTPError ''503'', Exn Timeout ''timed out''] = nat 3 - 1"
    using example_retryable len by simp
  from scripted_part[THEN mp, OF hyp, THEN conjunct2]
  have "retrying (retry_with_backoff 3 1 60 [RequestException, HTTPError] no_sleep) scripted
        (map Inl [Exn HTTPError ''503'', Exn Timeout ''timed out''] @
           Inl (Exn HTTPError ''502'') # [Inr ''ok'']) =
        (Inl (Exn HTTPError ''502''), nat 3, [Inr ''ok''])" .
  then have last: "retrying example_retrying scripted
       [Inl (Exn HTTPError ''503''), Inl (Exn Timeout ''timed out''),
        Inl (Exn HTTPError ''502''), Inr ''ok''] =
       (Inl (Exn HTTPError ''502''), 3, [Inr ''ok''])"
    unfolding R[symmetric] by simp
  note inst2 = retry_policy[where max_attempts = 3 and retry_on = "[RequestException, HTTPError]"
      and sleep = no_sleep and min_wait = 1 and max_wait = 60 and fn = scripted
      and s = "[Inl (Exn ValueError ''bad request''), Inr ''ok'']"
      and ?s1.0 = "[]" and v = "''ok''" and ?s2.0 = "[]"
      and e = "Exn ValueError ''bad request''" and s' = "[Inr ''ok'']"
      and fails = "[]" and y = "''ok''" and later = "[]"]
  have hyp2: "scripted [Inl (Exn ValueError ''bad request''), Inr ''ok''] =
        (Inl (Exn ValueError ''bad request''), [Inr ''ok''])
      \<and> \<not> isinstance (Exn ValueError ''bad request'') [RequestException, HTTPError]"
    using example_not_retryable by simp
  from inst2[THEN conjunct2, THEN conjunct1, THEN mp, OF hyp2]
  have once: "retrying example_retrying scripted [Inl (Exn ValueError ''bad request''), Inr ''ok''] =
       (Inl (Exn ValueError ''bad request''), 1, [Inr ''ok''])"
    unfolding R[symmetric] .
  have one: "(1::int) \<le> 3" by simp
  show ?thesis
    by (intro conjI one example_two_failures ok example_not_retryable once len last)
qed

section \<open>C5: normalisation of adapter results\<close>



section \<open>C6: the rate limiter spaces its grants\<close>

text \<open>
  C6. Time is an explicit real-valued clock: \<open>time.time()\<close> reads it, \<open>time.sleep\<close>
  advances it by at least the requested duration, and any non-negative amount of time
  may pass before a call and before the grant is recorded. Construction with
  \<open>calls_per_second \<le> 0\<close> raises \<open>ValueError\<close>. For \<open>calls_per_second > 0\<close>
  construction succeeds, and for any sequence of calls to \<open>wait\<close> on the new limiter
  two consecutive grants are at least \<open>1 / calls_per_second\<close> apart, and \<open>N \<ge> 1\<close>
  calls take at least \<open>(N - 1) / calls_per_second\<close> on the clock.
\<close>

theorem rate_limiter_spacing:
  "(calls_per_second \<le> 0 \<longrightarrow>
      RateLimiter_init calls_per_second =
        Inl (Exn ValueError ''calls_per_second must be positive''))
   \<and> (0 < calls_per_second \<longrightarrow>
      (\<exists>self. RateLimiter_init calls_per_second = Inr self
         \<and> (list_all scheduling_ok ds \<longrightarrow>
              successively (\<lambda>a b. a + 1 / calls_per_second \<le> b)
                (grant_times ds (self, clock))
              \<and> (ds \<noteq> [] \<longrightarrow>
                   (real (length ds) - 1) / calls_per_second \<le>
                     snd (sequential_waits ds (self, clock)) - clock))))"
proof (intro conjI impI)
  assume "calls_per_second \<le> 0"
  then show "RateLimiter_init calls_per_second =
        Inl (Exn ValueError ''calls_per_second must be positive'')"
    by (simp add: RateLimiter_init_def)
next
  let ?self = "\<lparr>min_interval = 1 / calls_per_second, last_call = 0\<rparr>"
  assume pos: "0 < calls_per_second"
  then have init: "RateLimiter_init calls_per_second = Inr ?self"
    by (simp add: RateLimiter_init_def)
  have nonneg: "0 \<le> min_interval ?self" using pos by simp
  have "successively (\<lambda>a b. a + 1 / calls_per_second \<le> b) (grant_times ds (?self, clock))
        \<and> (ds \<noteq> [] \<longrightarrow>
             (real (length ds) - 1) / calls_per_second \<le>
               snd (sequential_waits ds (?self, clock)) - clock)"
    if ok: "list_all scheduling_ok ds"
  proof
    from grants_spaced_any[OF ok, of ?self clock]
    show "successively (\<lambda>a b. a + 1 / calls_per_second \<le> b) (grant_times ds (?self, clock))"
      by simp
    show "ds \<noteq> [] \<longrightarrow>
             (real (length ds) - 1) / calls_per_second \<le>
               snd (sequential_waits ds (?self, clock)) - clock"
    proof
      assume "ds \<noteq> []"
      from waits_total[OF ok this nonneg, of clock]
      show "(real (length ds) - 1) / calls_per_second \<le>
               snd (sequential_waits ds (?self, clock)) - clock"
        by (simp add: field_simps)
    qed
  qed
  with init show "\<exists>self. RateLimiter_init calls_per_second = Inr self
         \<and> (list_all scheduling_ok ds \<longrightarrow>
              successively (\<lambda>a b. a + 1 / calls_per_second \<le> b)
                (grant_times ds (self, clock))
              \<and> (ds \<noteq> [] \<longrightarrow>
                   (real (length ds) - 1) / calls_per_second \<le>
                     snd (sequential_waits ds (self, clock)) - clock))"
    by blast
qed

lemma example_schedule_ok: "list_all scheduling_ok example_schedule"
  by (simp add: example_schedule_def scheduling_ok_def)

lemma example_grants:
  "grant_times example_schedule (\<lparr>min_interval = 1 / 2, last_call = 0\<rparr>, 100) =
     [100, 201 / 2, 203 / 2]"
  by (simp add: example_schedule_def RateLimiter_wait_def time_sleep_def Let_def)

text \<open>
  Witness for C6: a limiter for two calls per second, called three times from clock
  100; the second call comes a quarter of a second after the first grant and is put to
  sleep until half a second has passed. A limiter for \<open>-1\<close> calls per second is
  refused.
\<close>

theorem rate_limiter_spacing_witness:
  "(0::real) < 2 \<and> list_all scheduling_ok example_schedule \<and> example_schedule \<noteq> []
   \<and> RateLimiter_init 2 = Inr \<lparr>min_interval = 1 / 2, last_call = 0\<rparr>
   \<and> grant_times example_schedule (\<lparr>min_interval = 1 / 2, last_call = 0\<rparr>, 100) =
       [100, 201 / 2, 203 / 2]
   \<and> successively (\<lambda>a b. a + 1 / 2 \<le> b)
       (grant_times example_schedule (\<lparr>min_interval = 1 / 2, last_call = 0\<rparr>, 100))
   \<and> (real (length example_schedule) - 1) / 2 \<le>
       snd (sequential_waits example_schedule (\<lparr>min_interval = 1 / 2, last_call = 0\<rparr>, 100)) - 100
   \<and> (-1::real) \<le> 0
   \<and> RateLimiter_init (-1) = Inl (Exn ValueError ''calls_per_second must be positive'')"
proof -
  have init: "RateLimiter_init 2 = Inr \<lparr>min_interval = 1 / 2, last_call = 0\<rparr>"
    by (simp add: RateLimiter_init_def)
  have ne: "example_schedule \<noteq> []" by (simp add: example_schedule_def)
  from rate_limiter_spacing[of 2 example_schedule 100] init example_schedule_ok ne
  have "successively (\<lambda>a b. a + 1 / 2 \<le> b)
       (grant_times example_schedule (\<lparr>min_interval = 1 / 2, last_call = 0\<rparr>, 100))
     \<and> (real (length example_schedule) - 1) / 2 \<le>
       snd (sequential_waits example_schedule (\<lparr>min_interval = 1 / 2, last_call = 0\<rparr>, 100)) - 100"
    by auto
  moreover from rate_limiter_spacing[of "-1" example_schedule 100]
  have "RateLimiter_init (-1) = Inl (Exn ValueError ''calls_per_second must be positive'')"
    by simp
  ultimately show ?thesis using init ne example_schedule_ok example_grants by simp
qed

section \<open>C7: the catalog load is all or nothing\<close>

text \<open>
  C7. \<open>get_all_feature_metadata\<close> validates every entry of the definition file: a
  returned catalog holds, in order, the validated form of each entry and so is never
  partial; it is returned whenever every entry validates; and if any single entry fails
  validation the whole load fails with a pydantic \<open>ValidationError\<close>. An entry whose
  \<open>description\<close> is missing, or is the empty string, fails validation with an error
  located at \<open>description\<close>.
\<close>

theorem catalog_load_all_or_nothing:
  "(\<forall>features. get_all_feature_metadata P data = Inr features \<longrightarrow>
       list_all2 (\<lambda>f m. model_validate P f = Inr m) (get_features data) features)
   \<and> ((\<forall>f \<in> set (get_features data). \<exists>m. model_validate P f = Inr m) \<longrightarrow>
       (\<exists>features. get_all_feature_metadata P data = Inr features))
   \<and> ((\<exists>f \<in> set (get_features data). \<exists>e. model_validate P f = Inl e) \<longrightarrow>
       (\<exists>errs. get_all_feature_metadata P data = Inl (PydanticValidationError errs)))
   \<and> (\<forall>f. f ''description'' = None \<or> (\<exists>r. f ''description'' = Some r \<and> as_str P r = Some []) \<longrightarrow>
       (\<exists>errs kind. model_validate P f = Inl (PydanticValidationError errs) \<and>
                    (''description'', kind) \<in> set errs))"
proof (intro conjI allI impI)
  fix features
  assume "get_all_feature_metadata P data = Inr features"
  then show "list_all2 (\<lambda>f m. model_validate P f = Inr m) (get_features data) features"
    by (simp add: get_all_feature_metadata_def validate_each_Inr)
next
  assume valid: "\<forall>f \<in> set (get_features data). \<exists>m. model_validate P f = Inr m"
  have "\<exists>ms. list_all2 (\<lambda>f m. model_validate P f = Inr m) fs ms"
    if "\<forall>f \<in> set fs. \<exists>m. model_validate P f = Inr m" for fs
    using that
  proof (induction fs)
    case Nil
    then show ?case by simp
  next
    case (Cons f fs)
    then obtain m ms where "model_validate P f = Inr m"
      "list_all2 (\<lambda>f m. model_validate P f = Inr m) fs ms" by auto
    then have "list_all2 (\<lambda>f m. model_validate P f = Inr m) (f # fs) (m # ms)" by simp
    then show ?case by blast
  qed
  with valid obtain ms where
    "list_all2 (\<lambda>f m. model_validate P f = Inr m) (get_features data) ms" by blast
  then have "get_all_feature_metadata P data = Inr ms"
    by (simp add: get_all_feature_metadata_def validate_each_all_valid)
  then show "\<exists>features. get_all_feature_metadata P data = Inr features" by blast
next
  assume "\<exists>f \<in> set (get_features data). \<exists>e. model_validate P f = Inl e"
  then obtain f e where "f \<in> set (get_features data)" "model_validate P f = Inl e" by blast
  from validate_each_Inl[OF this]
  show "\<exists>errs. get_all_feature_metadata P data = Inl (PydanticValidationError errs)"
    by (simp add: get_all_feature_metadata_def)
next
  fix f :: "'a feature_dict"
  assume "f ''description'' = None \<or> (\<exists>r. f ''description'' = Some r \<and> as_str P r = Some [])"
  then have "required_str P f ''description'' 1 = Inl [(''description'', ''missing'')] \<or>
             required_str P f ''description'' 1 = Inl [(''description'', ''string_too_short'')]"
    by (auto simp: required_str_def)
  then obtain kind where
    "required_str P f ''description'' 1 = Inl [(''description'', kind)]" by blast
  from model_validate_description[OF this]
  show "\<exists>errs kind. model_validate P f = Inl (PydanticValidationError errs) \<and>
                    (''description'', kind) \<in> set errs"
    by (intro exI[of _ _] exI[of _ kind]) auto
qed

lemma example_missing_description:
  "get_all_feature_metadata text_pydantic catalog_missing_description =
     Inl (PydanticValidationError [(''description'', ''missing'')])"
  by code_simp

lemma example_empty_description:
  "get_all_feature_metadata text_pydantic catalog_empty_description =
     Inl (PydanticValidationError [(''description'', ''string_too_short'')])"
  by code_simp

text \<open>
  Witness for C7: a catalog of three entries whose second entry has no
  \<open>description\<close> does not load at all, although its first and third entries are
  valid; neither does a catalog with an entry whose \<open>description\<close> is the empty
  string; the example catalog, whose entries are all valid, loads in full.
\<close>

theorem catalog_load_all_or_nothing_witness:
  "(feature_entry ''gene'' ''ncbi'' ''Gene records'')(''description'' := None)
      \<in> set (get_features catalog_missing_description)
   \<and> ((feature_entry ''gene'' ''ncbi'' ''Gene records'')(''description'' := None)) ''description'' = None
   \<and> get_all_feature_metadata text_pydantic catalog_missing_description =
       Inl (PydanticValidationError [(''description'', ''missing'')])
   \<and> get_all_feature_metadata text_pydantic catalog_empty_description =
       Inl (PydanticValidationError [(''description'', ''string_too_short'')])
   \<and> (\<exists>features. get_all_feature_metadata text_pydantic example_data = Inr features
          \<and> list_all2 (\<lambda>f m. model_validate text_pydantic f = Inr m)
               (get_features example_data) features)"
proof -
  let ?bad = "(feature_entry ''gene'' ''ncbi'' ''Gene records'')(''description'' := None)"
  have mem: "?bad \<in> set (get_features catalog_missing_description)"
    by (simp add: get_features_def catalog_missing_description_def)
  have missing: "?bad ''description'' = None" by simp
  note bad = catalog_load_all_or_nothing[of text_pydantic catalog_missing_description]
  note good = catalog_load_all_or_nothing[of text_pydantic example_data]
  from bad missing obtain errs where "model_validate text_pydantic ?bad = Inl (PydanticValidationError errs)"
    by blast
  with bad mem have "\<exists>errs. get_all_feature_metadata text_pydantic catalog_missing_description =
      Inl (PydanticValidationError errs)" by blast
  moreover from good example_catalog
  have "\<exists>features. get_all_feature_metadata text_pydantic example_data = Inr features
          \<and> list_all2 (\<lambda>f m. model_validate text_pydantic f = Inr m)
               (get_features example_data) features"
    by blast
  ultimately show ?thesis
    using mem missing example_missing_description example_empty_description by blast
qed

section \<open>C8: client construction without credentials\<close>

text \<open>
  The clients that check their configuration: with the variable missing or empty and
  no argument given, construction raises \<open>ValueError\<close>. No constructor takes or
  returns a network state: none of them sends a request.
\<close>

lemma guarded_clients_reject_missing_configuration:
  "(falsy (env ''NCBI_API_KEY'') \<longrightarrow>
      NCBIClient_init None None None env = Inl (Exn ValueError ''NCBI_API_KEY must be provided''))
   \<and> (\<not> falsy (env ''NCBI_API_KEY'') \<and> falsy (env ''NCBI_API_EMAIL'') \<longrightarrow>
      NCBIClient_init None None None env = Inl (Exn ValueError ''NCBI_API_EMAIL must be provided''))
   \<and> (falsy (env ''PROTOCOLS_IO_API_CLIENT_ACCESS_TOKEN'') \<longrightarrow>
      ProtocolsIOClient_init None None env =
        Inl (Exn ValueError ''PROTOCOLS_IO_API_CLIENT_ACCESS_TOKEN must be provided''))
   \<and> (falsy (env ''FIRECRAWL_API_KEY'') \<longrightarrow>
      FirecrawlClient_init env =
        Inl (Exn ValueError ''FIRECRAWL_API_KEY environment variable is required'')
      \<and> ATCCClient_init env =
        Inl (Exn ValueError ''FIRECRAWL_API_KEY environment variable is required''))"
  by (auto simp: NCBIClient_init_def ProtocolsIOClient_init_def FirecrawlClient_init_def
      ATCCClient_init_def py_or_def falsy_def Let_def)

text \<open>
  C8 fails on \<open>ExaClient\<close>: in an environment without \<open>EXA_API_KEY\<close> its
  construction succeeds, with \<open>None\<close> as the key and as the value of the
  \<open>x-api-key\<close> header, and so does the construction of \<open>ExaAnswerClient\<close>, which
  builds it.
\<close>

theorem ExaClient_init_without_key:
  "ExaClient_init Map.empty =
     Inr \<lparr>exa_api_key = None, exa_headers = [(''x-api-key'', None)]\<rparr>
   \<and> ExaAnswerClient_init Map.empty =
     Inr \<lparr>exa_client = \<lparr>exa_api_key = None, exa_headers = [(''x-api-key'', None)]\<rparr>\<rparr>"
  by (simp add: ExaClient_init_def ExaAnswerClient_init_def)

section \<open>C9: the batch driver validates its input before fetching\<close>

text \<open>
  C9, as amended. \<open>run_csv\<close> validates the whole organism input before it opens the
  output file or invokes an adapter: on every validation error it returns the state it
  was given. An input without header row, or whose header lacks a required column,
  raises \<open>ValueError\<close>; the latter message names the missing and the found columns and
  no line. With the required columns present, if any record of the input, wherever it
  stands and whatever blank lines the input has, has an empty stripped name or id or an
  id that is not an integer, the run raises \<open>ValueError\<close> and returns the state it was
  given; the error is that of the first such record, computed with \<open>k + 2\<close> for the
  record number \<open>k\<close> (from 0) among the records \<open>csv.DictReader\<close> yields. Only when
  no record is bad does the run write the output header and fetch, for the organisms the
  records parse to. A record whose stripped name or id is empty raises \<open>ValueError\<close>
  with the row number and the record; one whose id is not an integer raises
  \<open>ValueError\<close> with the row number and the offending id. When the lines after the
  header up to line \<open>k + 2\<close> are not blank, those before it parse and line \<open>k + 2\<close>
  does not, the run raises the error of that line, computed with the row number
  \<open>k + 2\<close>, its 1-based line number.
\<close>

theorem run_csv_validates_before_fetching:
  "(fieldnames input_csv = None \<longrightarrow>
      run_csv P data reg B input_csv source_ids s =
        (Inl (Exn ValueError ''Input CSV has no header row.''), s))
   \<and> (fieldnames input_csv = Some names
        \<and> \<not> {''organism_scientific_name'', ''organism_id''} \<subseteq> set names \<longrightarrow>
      run_csv P data reg B input_csv source_ids s =
        (Inl (Exn ValueError
           (''Input CSV missing required columns: '' @
            join '', '' (filter (\<lambda>c. c \<notin> set names)
                           [''organism_id'', ''organism_scientific_name'']) @
            ''. Found columns: '' @ join '', '' names)), s))
   \<and> (fieldnames input_csv = Some names
        \<and> {''organism_scientific_name'', ''organism_id''} \<subseteq> set names
        \<and> (\<exists>row \<in> set (DictReader input_csv). bad_record B row) \<longrightarrow>
      (\<exists>msg. run_csv P data reg B input_csv source_ids s = (Inl (Exn ValueError msg), s)))
   \<and> (fieldnames input_csv = Some names
        \<and> {''organism_scientific_name'', ''organism_id''} \<subseteq> set names
        \<and> n < length (DictReader input_csv)
        \<and> (\<forall>j<n. \<not> bad_record B (DictReader input_csv ! j))
        \<and> bad_record B (DictReader input_csv ! n) \<longrightarrow>
      (\<exists>msg. parse_row B (n + 2) (DictReader input_csv ! n) = Inl (Exn ValueError msg)
         \<and> run_csv P data reg B input_csv source_ids s = (Inl (Exn ValueError msg), s)))
   \<and> (fieldnames input_csv = Some names
        \<and> {''organism_scientific_name'', ''organism_id''} \<subseteq> set names
        \<and> (\<forall>row \<in> set (DictReader input_csv). \<not> bad_record B row) \<longrightarrow>
      (\<exists>organisms. list_all2 (parsed_as B) (DictReader input_csv) organisms
         \<and> run_csv P data reg B input_csv source_ids s =
             write_organisms P data reg B source_ids organisms
               (s\<lparr>csv_out := Some [HeaderLine [''organism_id'', ''feature_id'', ''source_id'',
                                                 ''fetched_object'']]\<rparr>)))
   \<and> (input_csv = header # rest
        \<and> {''organism_scientific_name'', ''organism_id''} \<subseteq> set header
        \<and> k < length rest \<and> [] \<notin> set (take (Suc k) rest)
        \<and> (\<forall>j<k. \<exists>org. parse_row B (j + 2) (dict_row header (input_csv ! (j + 1))) = Inr org)
        \<and> parse_row B (k + 2) (dict_row header (input_csv ! (k + 1))) = Inl e \<longrightarrow>
      run_csv P data reg B input_csv source_ids s = (Inl e, s))
   \<and> (strip (get_or_empty row ''organism_scientific_name'') = []
        \<or> strip (get_or_empty row ''organism_id'') = [] \<longrightarrow>
      parse_row B i row =
        Inl (Exn ValueError
              (''Input CSV row '' @ str_nat i @
               '' missing organism_scientific_name or organism_id: '' @ repr_dict B row)))
   \<and> (strip (get_or_empty row ''organism_scientific_name'') \<noteq> []
        \<and> strip (get_or_empty row ''organism_id'') \<noteq> []
        \<and> int_of_str B (strip (get_or_empty row ''organism_id'')) = None \<longrightarrow>
      parse_row B i row =
        Inl (Exn ValueError
              (''Input CSV row '' @ str_nat i @
               '' organism_id must be an integer taxonomy id, got: '' @
               strip (get_or_empty row ''organism_id''))))"
proof (intro conjI impI)
  assume "fieldnames input_csv = None"
  then show "run_csv P data reg B input_csv source_ids s =
        (Inl (Exn ValueError ''Input CSV has no header row.''), s)"
    by (simp add: run_csv_def)
next
  assume "fieldnames input_csv = Some names
        \<and> \<not> {''organism_scientific_name'', ''organism_id''} \<subseteq> set names"
  then show "run_csv P data reg B input_csv source_ids s =
        (Inl (Exn ValueError
           (''Input CSV missing required columns: '' @
            join '', '' (filter (\<lambda>c. c \<notin> set names)
                           [''organism_id'', ''organism_scientific_name'']) @
            ''. Found columns: '' @ join '', '' names)), s)"
    using run_csv_missing_columns by blast
next
  assume h: "fieldnames input_csv = Some names
        \<and> {''organism_scientific_name'', ''organism_id''} \<subseteq> set names
        \<and> (\<exists>row \<in> set (DictReader input_csv). bad_record B row)"
  then have hdr: "fieldnames input_csv = Some names"
    and req: "{''organism_scientific_name'', ''organism_id''} \<subseteq> set names"
    and bad: "\<exists>row \<in> set (DictReader input_csv). bad_record B row" by simp_all
  from read_organisms_bad[OF bad, of 2 "[]"] obtain msg where
    "read_organisms B 2 (DictReader input_csv) [] = Inl (Exn ValueError msg)" by blast
  then have "run_csv P data reg B input_csv source_ids s = (Inl (Exn ValueError msg), s)"
    by (simp add: run_csv_header_ok[OF hdr req])
  then show "\<exists>msg. run_csv P data reg B input_csv source_ids s = (Inl (Exn ValueError msg), s)" ..
next
  assume h: "fieldnames input_csv = Some names
        \<and> {''organism_scientific_name'', ''organism_id''} \<subseteq> set names
        \<and> n < length (DictReader input_csv)
        \<and> (\<forall>j<n. \<not> bad_record B (DictReader input_csv ! j))
        \<and> bad_record B (DictReader input_csv ! n)"
  then have hdr: "fieldnames input_csv = Some names"
    and req: "{''organism_scientific_name'', ''organism_id''} \<subseteq> set names"
    and len: "n < length (DictReader input_csv)"
    and before: "\<forall>j<n. \<not> bad_record B (DictReader input_csv ! j)"
    and bad: "bad_record B (DictReader input_csv ! n)" by simp_all
  from parse_row_bad[OF bad, of "2 + n"] obtain msg where
    msg: "parse_row B (2 + n) (DictReader input_csv ! n) = Inl (Exn ValueError msg)" by blast
  have "\<forall>j<n. \<exists>org. parse_row B (2 + j) (DictReader input_csv ! j) = Inr org"
  proof (intro allI impI)
    fix j assume "j < n"
    with before have "\<not> bad_record B (DictReader input_csv ! j)" by simp
    from parse_row_good[OF this, of "2 + j"]
    show "\<exists>org. parse_row B (2 + j) (DictReader input_csv ! j) = Inr org" by blast
  qed
  from read_organisms_first_bad[OF len this msg]
  have "read_organisms B 2 (DictReader input_csv) [] = Inl (Exn ValueError msg)" .
  then have "run_csv P data reg B input_csv source_ids s = (Inl (Exn ValueError msg), s)"
    by (simp add: run_csv_header_ok[OF hdr req])
  with msg have "parse_row B (n + 2) (DictReader input_csv ! n) = Inl (Exn ValueError msg)
         \<and> run_csv P data reg B input_csv source_ids s = (Inl (Exn ValueError msg), s)"
    by (simp add: add.commute)
  then show "\<exists>msg. parse_row B (n + 2) (DictReader input_csv ! n) = Inl (Exn ValueError msg)
         \<and> run_csv P data reg B input_csv source_ids s = (Inl (Exn ValueError msg), s)" ..
next
  assume h: "fieldnames input_csv = Some names
        \<and> {''organism_scientific_name'', ''organism_id''} \<subseteq> set names
        \<and> (\<forall>row \<in> set (DictReader input_csv). \<not> bad_record B row)"
  then have hdr: "fieldnames input_csv = Some names"
    and req: "{''organism_scientific_name'', ''organism_id''} \<subseteq> set names"
    and good: "\<forall>row \<in> set (DictReader input_csv). \<not> bad_record B row" by simp_all
  from read_organisms_good[OF good, of 2 "[]"] obtain organisms where
    r: "read_organisms B 2 (DictReader input_csv) [] = Inr organisms"
    and p: "list_all2 (parsed_as B) (DictReader input_csv) organisms" by auto
  from r have "run_csv P data reg B input_csv source_ids s =
      write_organisms P data reg B source_ids organisms
        (s\<lparr>csv_out := Some [HeaderLine [''organism_id'', ''feature_id'', ''source_id'',
                                          ''fetched_object'']]\<rparr>)"
    by (simp add: run_csv_header_ok[OF hdr req])
  with p show "\<exists>organisms. list_all2 (parsed_as B) (DictReader input_csv) organisms
         \<and> run_csv P data reg B input_csv source_ids s =
             write_organisms P data reg B source_ids organisms
               (s\<lparr>csv_out := Some [HeaderLine [''organism_id'', ''feature_id'', ''source_id'',
                                                 ''fetched_object'']]\<rparr>)" by blast
next
  assume h: "input_csv = header # rest
        \<and> {''organism_scientific_name'', ''organism_id''} \<subseteq> set header
        \<and> k < length rest \<and> [] \<notin> set (take (Suc k) rest)
        \<and> (\<forall>j<k. \<exists>org. parse_row B (j + 2) (dict_row header (input_csv ! (j + 1))) = Inr org)
        \<and> parse_row B (k + 2) (dict_row header (input_csv ! (k + 1))) = Inl e"
  then have input: "input_csv = header # rest" and klen: "k < length rest"
    and noblank: "[] \<notin> set (take (Suc k) rest)" by simp_all
  have at_line: "DictReader input_csv ! j = dict_row header (input_csv ! (j + 1))" if "j \<le> k" for j
  proof -
    from that klen have "j < length rest" by simp
    moreover have "[] \<notin> set (take (Suc j) rest)"
      using noblank that by (meson Suc_le_mono set_take_subset_set_take subsetD)
    ultimately show ?thesis unfolding input by (rule DictReader_nth(2))
  qed
  have "read_organisms B 2 (DictReader input_csv) [] = Inl e"
  proof (rule read_organisms_first_bad[of k])
    show "k < length (DictReader input_csv)"
      unfolding input using klen noblank by (rule DictReader_nth(1))
    show "\<forall>j<k. \<exists>org. parse_row B (2 + j) (DictReader input_csv ! j) = Inr org"
    proof (intro allI impI)
      fix j assume "j < k"
      with h have "\<exists>org. parse_row B (j + 2) (dict_row header (input_csv ! (j + 1))) = Inr org"
        by blast
      with at_line[of j] \<open>j < k\<close>
      show "\<exists>org. parse_row B (2 + j) (DictReader input_csv ! j) = Inr org"
        by (simp only: add.commute[of 2 j] less_imp_le)
    qed
    from h have "parse_row B (k + 2) (dict_row header (input_csv ! (k + 1))) = Inl e" by blast
    with at_line[of k]
    show "parse_row B (2 + k) (DictReader input_csv ! k) = Inl e"
      by (simp only: add.commute[of 2 k] order_refl)
  qed
  moreover have hdr: "fieldnames input_csv = Some header" by (simp add: input fieldnames_def)
  moreover from h have req: "{''organism_scientific_name'', ''organism_id''} \<subseteq> set header"
    by blast
  ultimately show "run_csv P data reg B input_csv source_ids s = (Inl e, s)"
    by (simp add: run_csv_header_ok[OF hdr req])
next
  assume "strip (get_or_empty row ''organism_scientific_name'') = []
        \<or> strip (get_or_empty row ''organism_id'') = []"
  then show "parse_row B i row =
        Inl (Exn ValueError
              (''Input CSV row '' @ str_nat i @
               '' missing organism_scientific_name or organism_id: '' @ repr_dict B row))"
    by (auto simp: parse_row_def Let_def)
next
  assume "strip (get_or_empty row ''organism_scientific_name'') \<noteq> []
        \<and> strip (get_or_empty row ''organism_id'') \<noteq> []
        \<and> int_of_str B (strip (get_or_empty row ''organism_id'')) = None"
  then show "parse_row B i row =
        Inl (Exn ValueError
              (''Input CSV row '' @ str_nat i @
               '' organism_id must be an integer taxonomy id, got: '' @
               strip (get_or_empty row ''organism_id'')))"
    by (simp add: parse_row_def Let_def)
qed

lemma example_bad_id_row:
  "parse_row example_builtins 3 (dict_row csv_header (csv_bad_id ! 2)) =
     Inl (Exn ValueError ''Input CSV row 3 organism_id must be an integer taxonomy id, got: abc'')"
  by code_simp

lemma example_good_row:
  "parse_row example_builtins 2 (dict_row csv_header (csv_bad_id ! 1)) =
     Inr \<lparr>organism_scientific_name = ''Chlorella vulgaris'', organism_id = 3077\<rparr>"
  by code_simp

lemma example_empty_name_row:
  "strip (get_or_empty (dict_row csv_header [''  '', ''3077'']) ''organism_scientific_name'') = []"
  by code_simp

lemma example_run_csv:
  "run_csv text_pydantic example_data (SOURCE_REGISTRY stub_adapters) example_builtins
     [csv_header, [], [''Chlorella vulgaris'', '' 3077 '']] (Some [''protocols_io'']) initial_io =
   (Inr (),
    \<lparr>world = (),
     stdout = [(''Chlorella vulgaris'', 3077, ''protocols'', ''protocols_io'')],
     csv_out = Some [HeaderLine [''organism_id'', ''feature_id'', ''source_id'', ''fetched_object''],
                     DataLine 3077 ''protocols'' ''protocols_io'' ''<json>'']\<rparr>)"
  by code_simp

lemma example_blank_line_record:
  "bad_record example_builtins (DictReader csv_blank_line ! 0)"
  by code_simp

lemma example_blank_line_row:
  "parse_row example_builtins 2 (DictReader csv_blank_line ! 0) =
     Inl (Exn ValueError ''Input CSV row 2 organism_id must be an integer taxonomy id, got: abc'')"
  by code_simp

lemma example_good_records:
  "list_all (\<lambda>row. \<not> bad_record example_builtins row) (DictReader [csv_header, [], [''Chlorella vulgaris'', '' 3077 '']])"
  by code_simp

text \<open>
  Witness for C9: an input whose third line has the id \<open>abc\<close> is rejected with row
  number 3 and the state untouched; an input without the \<open>organism_id\<close> column is
  rejected likewise, and so is the empty input; an input with a blank second line and
  the id \<open>abc\<close> on its third is rejected with the state untouched; an input with a
  blank line and one good record goes on to the output header and the fetch; a row
  whose name is blank is reported as missing.
\<close>

theorem run_csv_validates_before_fetching_witness:
  "csv_bad_id = csv_header # [[''Chlorella vulgaris'', ''3077''], [''Escherichia coli'', ''abc'']]
   \<and> {''organism_scientific_name'', ''organism_id''} \<subseteq> set csv_header
   \<and> [] \<notin> set (take (Suc 1) [[''Chlorella vulgaris'', ''3077''], [''Escherichia coli'', ''abc'']])
   \<and> parse_row example_builtins 2 (dict_row csv_header (csv_bad_id ! 1)) =
       Inr \<lparr>organism_scientific_name = ''Chlorella vulgaris'', organism_id = 3077\<rparr>
   \<and> parse_row example_builtins 3 (dict_row csv_header (csv_bad_id ! 2)) =
       Inl (Exn ValueError ''Input CSV row 3 organism_id must be an integer taxonomy id, got: abc'')
   \<and> run_csv text_pydantic example_data (SOURCE_REGISTRY stub_adapters) example_builtins
       csv_bad_id None initial_io =
       (Inl (Exn ValueError ''Input CSV row 3 organism_id must be an integer taxonomy id, got: abc''),
        initial_io)
   \<and> fieldnames csv_no_id_column = Some [''organism_scientific_name'']
   \<and> run_csv text_pydantic example_data (SOURCE_REGISTRY stub_adapters) example_builtins
       csv_no_id_column None initial_io =
       (Inl (Exn ValueError
          ''Input CSV missing required columns: organism_id. Found columns: organism_scientific_name''),
        initial_io)
   \<and> parse_row example_builtins 7 (dict_row csv_header [''  '', ''3077'']) =
       Inl (Exn ValueError
             (''Input CSV row 7 missing organism_scientific_name or organism_id: <row>''))
   \<and> fieldnames ([] :: string list list) = None
   \<and> run_csv text_pydantic example_data (SOURCE_REGISTRY stub_adapters) example_builtins
       [] None initial_io = (Inl (Exn ValueError ''Input CSV has no header row.''), initial_io)
   \<and> fieldnames csv_blank_line = Some csv_header
   \<and> (\<exists>row \<in> set (DictReader csv_blank_line). bad_record example_builtins row)
   \<and> (\<exists>msg. run_csv text_pydantic example_data (SOURCE_REGISTRY stub_adapters) example_builtins
         csv_blank_line (Some [''protocols_io'']) initial_io = (Inl (Exn ValueError msg), initial_io))
   \<and> bad_record example_builtins (DictReader csv_blank_line ! 0)
   \<and> run_csv text_pydantic example_data (SOURCE_REGISTRY stub_adapters) example_builtins
       csv_blank_line None initial_io =
       (Inl (Exn ValueError ''Input CSV row 2 organism_id must be an integer taxonomy id, got: abc''),
        initial_io)
   \<and> list_all (\<lambda>row. \<not> bad_record example_builtins row) (DictReader [csv_header, [], [''Chlorella vulgaris'', '' 3077 '']])
   \<and> (\<exists>organisms.
         list_all2 (parsed_as example_builtins) (DictReader [csv_header, [], [''Chlorella vulgaris'', '' 3077 '']]) organisms
         \<and> run_csv text_pydantic example_data (SOURCE_REGISTRY stub_adapters) example_builtins
             [csv_header, [], [''Chlorella vulgaris'', '' 3077 '']] (Some [''protocols_io'']) initial_io =
           write_organisms text_pydantic example_data (SOURCE_REGISTRY stub_adapters)
             example_builtins (Some [''protocols_io'']) organisms
             (initial_io\<lparr>csv_out := Some [HeaderLine [''organism_id'', ''feature_id'', ''source_id'', ''fetched_object'']]\<rparr>))"
proof -
  let ?rest = "[[''Chlorella vulgaris'', ''3077''], [''Escherichia coli'', ''abc'']]"
  let ?bad = "Exn ValueError ''Input CSV row 3 organism_id must be an integer taxonomy id, got: abc''"
  have shape: "csv_bad_id = csv_header # ?rest" by (simp add: csv_bad_id_def)
  have req: "{''organism_scientific_name'', ''organism_id''} \<subseteq> set csv_header"
    by (simp add: csv_header_def)
  have len: "(1::nat) < length ?rest" by simp
  have noblank: "[] \<notin> set (take (Suc 1) ?rest)" by simp
  have before: "\<forall>j<1. \<exists>org. parse_row example_builtins (j + 2)
                    (dict_row csv_header (csv_bad_id ! (j + 1))) = Inr org"
  proof (intro allI impI)
    fix j :: nat
    assume "j < 1"
    then have j: "j = 0" by simp
    show "\<exists>org. parse_row example_builtins (j + 2)
            (dict_row csv_header (csv_bad_id ! (j + 1))) = Inr org"
      unfolding j add_0 using example_good_row by blast
  qed
  have three: "(1::nat) + 2 = 3" and two: "(1::nat) + 1 = 2" by simp_all
  have bad: "parse_row example_builtins (1 + 2) (dict_row csv_header (csv_bad_id ! (1 + 1))) =
       Inl ?bad"
    unfolding three two by (rule example_bad_id_row)
  have hyp6: "csv_bad_id = csv_header # ?rest
        \<and> {''organism_scientific_name'', ''organism_id''} \<subseteq> set csv_header
        \<and> 1 < length ?rest \<and> [] \<notin> set (take (Suc 1) ?rest)
        \<and> (\<forall>j<1. \<exists>org. parse_row example_builtins (j + 2)
                      (dict_row csv_header (csv_bad_id ! (j + 1))) = Inr org)
        \<and> parse_row example_builtins (1 + 2) (dict_row csv_header (csv_bad_id ! (1 + 1))) =
            Inl ?bad"
    by (intro conjI shape req len noblank before bad)
  note inst = run_csv_validates_before_fetching[where input_csv = csv_bad_id
      and P = text_pydantic and data = example_data and reg = "SOURCE_REGISTRY stub_adapters"
      and B = example_builtins and source_ids = None and s = initial_io
      and header = csv_header and rest = ?rest and k = 1 and e = ?bad]
  from inst[THEN conjunct2, THEN conjunct2, THEN conjunct2, THEN conjunct2, THEN conjunct2, THEN conjunct1, THEN mp, OF hyp6]
  have run: "run_csv text_pydantic example_data (SOURCE_REGISTRY stub_adapters) example_builtins
       csv_bad_id None initial_io = (Inl ?bad, initial_io)" .
  have hdr2: "fieldnames csv_no_id_column = Some [''organism_scientific_name'']"
    by (simp add: fieldnames_def csv_no_id_column_def)
  have hyp2: "fieldnames csv_no_id_column = Some [''organism_scientific_name'']
      \<and> \<not> {''organism_scientific_name'', ''organism_id''} \<subseteq> set [''organism_scientific_name'']"
    using hdr2 by simp
  note inst2 = run_csv_validates_before_fetching[where input_csv = csv_no_id_column
      and P = text_pydantic and data = example_data and reg = "SOURCE_REGISTRY stub_adapters"
      and B = example_builtins and source_ids = None and s = initial_io
      and names = "[''organism_scientific_name'']"]
  from inst2[THEN conjunct2, THEN conjunct1, THEN mp, OF hyp2]
  have "run_csv text_pydantic example_data (SOURCE_REGISTRY stub_adapters) example_builtins
       csv_no_id_column None initial_io =
       (Inl (Exn ValueError
           (''Input CSV missing required columns: '' @
            join '', '' (filter (\<lambda>c. c \<notin> set [''organism_scientific_name''])
                           [''organism_id'', ''organism_scientific_name'']) @
            ''. Found columns: '' @ join '', '' [''organism_scientific_name''])), initial_io)" .
  then have run2: "run_csv text_pydantic example_data (SOURCE_REGISTRY stub_adapters) example_builtins
       csv_no_id_column None initial_io =
       (Inl (Exn ValueError
          ''Input CSV missing required columns: organism_id. Found columns: organism_scientific_name''),
        initial_io)"
    by simp
  have seven: "str_nat 7 = ''7''" by code_simp
  have hyp7: "strip (get_or_empty (dict_row csv_header [''  '', ''3077''])
                 ''organism_scientific_name'') = []
      \<or> strip (get_or_empty (dict_row csv_header [''  '', ''3077'']) ''organism_id'') = []"
    using example_empty_name_row by (rule disjI1)
  note inst7 = run_csv_validates_before_fetching[where B = example_builtins
      and row = "dict_row csv_header [''  '', ''3077'']" and i = 7]
  from inst7[THEN conjunct2, THEN conjunct2, THEN conjunct2, THEN conjunct2, THEN conjunct2, THEN conjunct2, THEN conjunct1, THEN mp, OF hyp7]
  have "parse_row example_builtins 7 (dict_row csv_header [''  '', ''3077'']) =
       Inl (Exn ValueError
             (''Input CSV row '' @ str_nat 7 @
              '' missing organism_scientific_name or organism_id: '' @
              repr_dict example_builtins (dict_row csv_header [''  '', ''3077''])))" .
  then have blank: "parse_row example_builtins 7 (dict_row csv_header [''  '', ''3077'']) =
       Inl (Exn ValueError
             (''Input CSV row 7 missing organism_scientific_name or organism_id: <row>''))"
    unfolding seven by (simp add: example_builtins_def)
  have nohdr: "fieldnames ([] :: string list list) = None" by (simp add: fieldnames_def)
  note inst1 = run_csv_validates_before_fetching[where input_csv = "[]"
      and P = text_pydantic and data = example_data and reg = "SOURCE_REGISTRY stub_adapters"
      and B = example_builtins and source_ids = None and s = initial_io]
  from inst1[THEN conjunct1, THEN mp, OF nohdr]
  have run0: "run_csv text_pydantic example_data (SOURCE_REGISTRY stub_adapters) example_builtins
       [] None initial_io = (Inl (Exn ValueError ''Input CSV has no header row.''), initial_io)" .
  have hdr3: "fieldnames csv_blank_line = Some csv_header"
    by (simp add: fieldnames_def csv_blank_line_def)
  have some_bad: "\<exists>row \<in> set (DictReader csv_blank_line). bad_record example_builtins row"
  proof
    show "DictReader csv_blank_line ! 0 \<in> set (DictReader csv_blank_line)"
      by (simp add: DictReader_def csv_blank_line_def)
    show "bad_record example_builtins (DictReader csv_blank_line ! 0)"
      by (rule example_blank_line_record)
  qed
  have hyp3: "fieldnames csv_blank_line = Some csv_header
        \<and> {''organism_scientific_name'', ''organism_id''} \<subseteq> set csv_header
        \<and> (\<exists>row \<in> set (DictReader csv_blank_line). bad_record example_builtins row)"
    by (intro conjI hdr3 req some_bad)
  note inst3 = run_csv_validates_before_fetching[where input_csv = csv_blank_line
      and P = text_pydantic and data = example_data and reg = "SOURCE_REGISTRY stub_adapters"
      and B = example_builtins and source_ids = "Some [''protocols_io'']" and s = initial_io
      and names = csv_header]
  from inst3[THEN conjunct2, THEN conjunct2, THEN conjunct1, THEN mp, OF hyp3]
  have run3: "\<exists>msg. run_csv text_pydantic example_data (SOURCE_REGISTRY stub_adapters)
         example_builtins csv_blank_line (Some [''protocols_io'']) initial_io =
         (Inl (Exn ValueError msg), initial_io)" .
  have len4: "0 < length (DictReader csv_blank_line)"
    by (simp add: DictReader_def csv_blank_line_def)
  have none_before: "\<forall>j<0. \<not> bad_record example_builtins (DictReader csv_blank_line ! j)"
    by simp
  have hyp4: "fieldnames csv_blank_line = Some csv_header
        \<and> {''organism_scientific_name'', ''organism_id''} \<subseteq> set csv_header
        \<and> 0 < length (DictReader csv_blank_line)
        \<and> (\<forall>j<0. \<not> bad_record example_builtins (DictReader csv_blank_line ! j))
        \<and> bad_record example_builtins (DictReader csv_blank_line ! 0)"
    by (intro conjI hdr3 req len4 none_before example_blank_line_record)
  note inst4 = run_csv_validates_before_fetching[where input_csv = csv_blank_line
      and P = text_pydantic and data = example_data and reg = "SOURCE_REGISTRY stub_adapters"
      and B = example_builtins and source_ids = None and s = initial_io
      and names = csv_header and n = 0]
  from inst4[THEN conjunct2, THEN conjunct2, THEN conjunct2, THEN conjunct1, THEN mp, OF hyp4] obtain msg where
    m1: "parse_row example_builtins (0 + 2) (DictReader csv_blank_line ! 0) =
           Inl (Exn ValueError msg)"
    and m2: "run_csv text_pydantic example_data (SOURCE_REGISTRY stub_adapters) example_builtins
           csv_blank_line None initial_io = (Inl (Exn ValueError msg), initial_io)"
    by (elim exE conjE)
  from m1 have "msg = ''Input CSV row 2 organism_id must be an integer taxonomy id, got: abc''"
    unfolding add_0 example_blank_line_row by simp
  with m2 have run4: "run_csv text_pydantic example_data (SOURCE_REGISTRY stub_adapters)
       example_builtins csv_blank_line None initial_io =
       (Inl (Exn ValueError ''Input CSV row 2 organism_id must be an integer taxonomy id, got: abc''),
        initial_io)"
    by simp
  have hdr5: "fieldnames [csv_header, [], [''Chlorella vulgaris'', '' 3077 '']] = Some csv_header" by (simp add: fieldnames_def)
  have all_good: "\<forall>row \<in> set (DictReader [csv_header, [], [''Chlorella vulgaris'', '' 3077 '']]). \<not> bad_record example_builtins row"
    using example_good_records unfolding list_all_iff .
  have hyp5: "fieldnames [csv_header, [], [''Chlorella vulgaris'', '' 3077 '']] = Some csv_header
        \<and> {''organism_scientific_name'', ''organism_id''} \<subseteq> set csv_header
        \<and> (\<forall>row \<in> set (DictReader [csv_header, [], [''Chlorella vulgaris'', '' 3077 '']]). \<not> bad_record example_builtins row)"
    by (intro conjI hdr5 req all_good)
  note inst5 = run_csv_validates_before_fetching[where input_csv = "[csv_header, [], [''Chlorella vulgaris'', '' 3077 '']]"
      and P = text_pydantic and data = example_data and reg = "SOURCE_REGISTRY stub_adapters"
      and B = example_builtins and source_ids = "Some [''protocols_io'']" and s = initial_io
      and names = csv_header]
  from inst5[THEN conjunct2, THEN conjunct2, THEN conjunct2, THEN conjunct2, THEN conjunct1, THEN mp, OF hyp5]
  have run5: "\<exists>organisms.
         list_all2 (parsed_as example_builtins) (DictReader [csv_header, [], [''Chlorella vulgaris'', '' 3077 '']]) organisms
         \<and> run_csv text_pydantic example_data (SOURCE_REGISTRY stub_adapters) example_builtins
             [csv_header, [], [''Chlorella vulgaris'', '' 3077 '']] (Some [''protocols_io'']) initial_io =
           write_organisms text_pydantic example_data (SOURCE_REGISTRY stub_adapters)
             example_builtins (Some [''protocols_io'']) organisms
             (initial_io\<lparr>csv_out := Some [HeaderLine [''organism_id'', ''feature_id'', ''source_id'', ''fetched_object'']]\<rparr>)" .
  show ?thesis
    by (intro conjI shape req noblank example_good_row example_bad_id_row run hdr2 run2 blank
          nohdr run0 hdr3 some_bad run3 example_blank_line_record run4 example_good_records run5)
qed

text \<open>
  Counterexample to C9 as stated. The error for a missing column holds no digit, so it
  reports no line number. And in an input with the header on line 1, a blank line 2 and
  a record with the id \<open>abc\<close> on line 3, \<open>csv.DictReader\<close> passes over the blank line,
  the record is the first the loop sees, and the error reports row 2, which is not the
  1-based line number of the offending record.
\<close>

theorem line_number_counterexample:
  "run_csv text_pydantic example_data (SOURCE_REGISTRY stub_adapters) example_builtins
     csv_no_id_column None initial_io =
     (Inl (Exn ValueError
        ''Input CSV missing required columns: organism_id. Found columns: organism_scientific_name''),
      initial_io)
   \<and> list_all (\<lambda>c. \<not> is_digit c)
       ''Input CSV missing required columns: organism_id. Found columns: organism_scientific_name''
   \<and> run_csv text_pydantic example_data (SOURCE_REGISTRY stub_adapters) example_builtins
       csv_blank_line None initial_io =
       (Inl (Exn ValueError ''Input CSV row 2 organism_id must be an integer taxonomy id, got: abc''),
        initial_io)
   \<and> csv_blank_line ! (3 - 1) = [''Escherichia coli'', ''abc'']
   \<and> csv_blank_line ! (2 - 1) = []
   \<and> str_nat 2 \<noteq> str_nat 3"
  by code_simp

section \<open>C10: repeated and empty source id lists\<close>

text \<open>
  C10. When every id of \<open>source_ids\<close> is registered, source selection keeps each
  distinct id once, in the order of first occurrence; the fetch for the list equals, in
  its result and in its final state, the fetch for the list without repetitions; and in
  the returned rows each requested source has exactly as many rows as the catalog has
  entries for it. The empty list returns no rows, raises nothing and leaves the state
  as it was.
\<close>

theorem repeated_source_ids_collapse:
  "(set sids \<subseteq> set (map fst (SOURCE_REGISTRY A)) \<longrightarrow>
      (\<exists>srcs. get_sources_to_process (SOURCE_REGISTRY A) (Some sids) = Inr srcs
            \<and> map fst srcs = first_occurrences sids \<and> distinct (map fst srcs))
      \<and> fetch_features_for_organism P data (SOURCE_REGISTRY A) oid name (Some sids) s =
        fetch_features_for_organism P data (SOURCE_REGISTRY A) oid name
          (Some (first_occurrences sids)) s
      \<and> (\<forall>rows s' x.
            fetch_features_for_organism P data (SOURCE_REGISTRY A) oid name (Some sids) s =
              (Inr rows, s') \<longrightarrow>
            length (filter (\<lambda>r. row_source_id r = x) rows) =
              (if x \<in> set sids
               then length (filter (\<lambda>f. source_id f = x) (catalog_entries P data)) else 0)))
   \<and> fetch_features_for_organism P data (SOURCE_REGISTRY A) oid name (Some []) s = (Inr [], s)"
proof (intro conjI impI allI)
  let ?reg = "SOURCE_REGISTRY A"
  assume ok: "set sids \<subseteq> set (map fst ?reg)"
  have sel: "get_sources_to_process ?reg (Some sids) = Inr (lookups ?reg (first_occurrences sids))"
    using ok by (rule get_sources_to_process_valid)
  show "\<exists>srcs. get_sources_to_process ?reg (Some sids) = Inr srcs
            \<and> map fst srcs = first_occurrences sids \<and> distinct (map fst srcs)"
    using sel lookups_distinct_keys[OF ok] by simp
  have ok': "set (first_occurrences sids) \<subseteq> set (map fst ?reg)" using ok by simp
  show "fetch_features_for_organism P data ?reg oid name (Some sids) s =
        fetch_features_for_organism P data ?reg oid name (Some (first_occurrences sids)) s"
    by (simp add: fetch_features_for_organism_def sel get_sources_to_process_valid[OF ok'])
  fix rows s' x
  assume "fetch_features_for_organism P data ?reg oid name (Some sids) s = (Inr rows, s')"
  from fetch_rows_order[OF this]
  have "map row_key rows = expected_keys (catalog_entries P data) (first_occurrences sids)"
    by (simp add: processing_order_def)
  from rows_of_source_count[OF this, of x]
  show "length (filter (\<lambda>r. row_source_id r = x) rows) =
          (if x \<in> set sids
           then length (filter (\<lambda>f. source_id f = x) (catalog_entries P data)) else 0)"
    by simp
next
  show "fetch_features_for_organism P data (SOURCE_REGISTRY A) oid name (Some []) s = (Inr [], s)"
    by (simp add: fetch_features_for_organism_def get_sources_to_process_def)
qed

text \<open>
  Witness for C10: the request \<open>[ncbi, protocols_io, ncbi]\<close> behaves as
  \<open>[ncbi, protocols_io]\<close>, and the empty request returns no rows.
\<close>

theorem repeated_source_ids_collapse_witness:
  "set [''ncbi'', ''protocols_io'', ''ncbi''] \<subseteq> set (map fst (SOURCE_REGISTRY stub_adapters))
   \<and> first_occurrences [''ncbi'', ''protocols_io'', ''ncbi''] = [''ncbi'', ''protocols_io'']
   \<and> fetch_features_for_organism text_pydantic example_data (SOURCE_REGISTRY stub_adapters)
       3077 ''Chlorella vulgaris'' (Some [''ncbi'', ''protocols_io'', ''ncbi'']) initial_io =
     fetch_features_for_organism text_pydantic example_data (SOURCE_REGISTRY stub_adapters)
       3077 ''Chlorella vulgaris'' (Some [''ncbi'', ''protocols_io'']) initial_io
   \<and> fetch_features_for_organism text_pydantic example_data (SOURCE_REGISTRY stub_adapters)
       3077 ''Chlorella vulgaris'' (Some []) initial_io = (Inr [], initial_io)"
proof -
  have ok: "set [''ncbi'', ''protocols_io'', ''ncbi''] \<subseteq> set (map fst (SOURCE_REGISTRY stub_adapters))"
    by (simp add: registry_keys)
  have fo: "first_occurrences [''ncbi'', ''protocols_io'', ''ncbi''] = [''ncbi'', ''protocols_io'']"
    by simp
  note inst = repeated_source_ids_collapse[of "[''ncbi'', ''protocols_io'', ''ncbi'']" stub_adapters
      text_pydantic example_data 3077 "''Chlorella vulgaris''" initial_io]
  from inst ok have "fetch_features_for_organism text_pydantic example_data (SOURCE_REGISTRY stub_adapters)
       3077 ''Chlorella vulgaris'' (Some [''ncbi'', ''protocols_io'', ''ncbi'']) initial_io =
     fetch_features_for_organism text_pydantic example_data (SOURCE_REGISTRY stub_adapters)
       3077 ''Chlorella vulgaris'' (Some (first_occurrences [''ncbi'', ''protocols_io'', ''ncbi''])) initial_io"
    by blast
  moreover from inst have "fetch_features_for_organism text_pydantic example_data (SOURCE_REGISTRY stub_adapters)
       3077 ''Chlorella vulgaris'' (Some []) initial_io = (Inr [], initial_io)"
    by blast
  ultimately show ?thesis using ok fo by simp
qed

end
